theory Spec2Isabelle
  imports Main "HOL-Library.Word"
begin

section \<open>Go values shared by the whole package\<close>

text \<open>
  A Go \<open>error\<close> is modelled by the text its \<open>Error()\<close> method returns. A run-time
  panic is a value of its own: the only panics the package can raise are slice reads
  out of range, which carry the index and the length of the slice.
\<close>

type_synonym error = string

datatype panic = IndexOutOfRange nat nat

type_synonym int64 = "64 word"
type_synonym uint64 = "64 word"

definition apos :: string where
  "apos = [CHR 0x27]"

text \<open>\<open>xs[i]\<close> on a Go slice: the element, or the run-time panic.\<close>

definition index :: "'a list \<Rightarrow> nat \<Rightarrow> panic + 'a" where
  "index xs i = (if i < length xs then Inr (xs ! i) else Inl (IndexOutOfRange i (length xs)))"

text \<open>\<open>strings.Split(s, sep)\<close> for a separator of one byte: always at least one piece.\<close>

fun Split :: "string \<Rightarrow> char \<Rightarrow> string list" where
  "Split [] sep = [[]]"
| "Split (c # cs) sep =
     (if c = sep then [] # Split cs sep
      else (case Split cs sep of [] \<Rightarrow> [[c]] | w # ws \<Rightarrow> (c # w) # ws))"

text \<open>\<open>strings.Join(elems, sep)\<close>.\<close>

fun Join :: "string list \<Rightarrow> string \<Rightarrow> string" where
  "Join [] sep = []"
| "Join [x] sep = x"
| "Join (x # y # ys) sep = x @ sep @ Join (y # ys) sep"

text \<open>
  Decimal rendering of an integer, as \<open>strconv.FormatInt(v, 10)\<close> and the verb \<open>%d\<close>
  produce it: the digits of the magnitude, most significant first, after a minus sign
  for a negative value.
\<close>

definition digit_char :: "nat \<Rightarrow> char" where
  "digit_char d = ''0123456789'' ! d"

fun digits :: "nat \<Rightarrow> string" where
  "digits n = (if n < 10 then [digit_char n] else digits (n div 10) @ [digit_char (n mod 10)])"

declare digits.simps [simp del]

definition FormatInt :: "int \<Rightarrow> string" where
  "FormatInt i = (if i < 0 then CHR ''-'' # digits (nat (- i)) else digits (nat i))"

section \<open>The filter compiler (filter.go)\<close>

text \<open>
  The expression tree comes from the CEL protocol buffers of the Grafeas library. A node
  has one of the kinds call, select, identifier or constant; every other kind (list,
  struct, comprehension, or no kind at all, as for a nil node) is \<open>OtherExpr\<close>. A
  constant is a signed or unsigned 64-bit integer, a double (kept as its IEEE-754 bit
  pattern) or a string; every other kind of constant is \<open>OtherConstant\<close>.
\<close>

datatype Constant =
    Int64Value int64
  | Uint64Value uint64
  | DoubleValue "64 word"
  | StringValue string
  | OtherConstant

datatype expr =
    CallExpr string "expr list"
  | SelectExpr expr string
  | IdentExpr string
  | ConstExpr Constant
  | OtherExpr

text \<open>
  What filter.go takes from the packages it imports: the function names of package
  \<open>operators\<close>, the rendering of a double by the verb \<open>%f\<close>, and \<open>parser.Parse\<close>,
  which returns the tree of a filter text or an error.
\<close>

record filtering =
  Equals :: string
  Greater :: string
  GreaterEquals :: string
  Less :: string
  LessEquals :: string
  NotEquals :: string
  LogicalAnd :: string
  LogicalOr :: string
  Index :: string
  Has :: string
  Sprintf_f :: "64 word \<Rightarrow> string"
  Parse :: "string \<Rightarrow> error + expr"

text \<open>
  The Go compiler rejects a switch whose constant cases repeat, so the ten names differ
  from one another.
\<close>

definition distinct_operators :: "filtering \<Rightarrow> bool" where
  "distinct_operators E =
     distinct [Equals E, Greater E, GreaterEquals E, Less E, LessEquals E, NotEquals E,
               LogicalAnd E, LogicalOr E, Index E, Has E]"

text \<open>The switch at the head of \<open>sqlFromCall\<close>: the first case that matches wins.\<close>

definition sqlOp_of :: "filtering \<Rightarrow> string \<Rightarrow> string" where
  "sqlOp_of E funcName =
     (if funcName = Equals E then ''=''
      else if funcName = Greater E then ''>''
      else if funcName = GreaterEquals E then ''>=''
      else if funcName = Less E then ''<''
      else if funcName = LessEquals E then ''<=''
      else if funcName = NotEquals E then ''!=''
      else if funcName = LogicalAnd E then ''AND''
      else if funcName = LogicalOr E then ''OR''
      else if funcName = Index E then ''[''
      else if funcName = Has E then ''like''
      else [])"

definition formatLikeString :: "string \<Rightarrow> panic + string" where
  "formatLikeString argName =
     (case index (Split argName (CHR 0x27)) 1 of
        Inl p \<Rightarrow> Inl p
      | Inr piece \<Rightarrow> Inr (apos @ ''%'' @ piece @ ''%'' @ apos))"

definition getConstantValue :: "filtering \<Rightarrow> Constant \<Rightarrow> string" where
  "getConstantValue E constExpr =
     (case constExpr of
        Int64Value v \<Rightarrow> FormatInt (sint v)
      | Uint64Value v \<Rightarrow> FormatInt (uint v)
      | DoubleValue v \<Rightarrow> Sprintf_f E v
      | StringValue v \<Rightarrow> apos @ v @ apos
      | OtherConstant \<Rightarrow> ''NO CONST'')"

text \<open>
  The tail of \<open>sqlFromCall\<close>, once its arguments are rendered. The slice reads among
  the arguments of \<open>Sprintf\<close> go from left to right, so \<open>argNames[0]\<close> is read
  first; in the branch of \<open>like\<close> the call \<open>formatLikeString(argNames[1])\<close> is
  evaluated before \<open>argNames[0]\<close> is read, as Go orders calls before plain operands.
\<close>

definition render_call :: "string \<Rightarrow> string \<Rightarrow> string list \<Rightarrow> panic + string" where
  "render_call funcName sqlOp argNames =
     (if sqlOp = ''['' then
        (case index argNames 0 of Inl p \<Rightarrow> Inl p | Inr a0 \<Rightarrow>
         (case index argNames 1 of Inl p \<Rightarrow> Inl p | Inr a1 \<Rightarrow>
            Inr (a0 @ ''['' @ a1 @ '']'')))
      else if sqlOp = ''like'' then
        (case index argNames 1 of Inl p \<Rightarrow> Inl p | Inr a1 \<Rightarrow>
         (case formatLikeString a1 of Inl p \<Rightarrow> Inl p | Inr pat \<Rightarrow>
         (case index argNames 0 of Inl p \<Rightarrow> Inl p | Inr a0 \<Rightarrow>
            Inr (''('' @ a0 @ '' '' @ sqlOp @ '' '' @ pat @ '')''))))
      else if sqlOp \<noteq> [] then
        (case index argNames 0 of Inl p \<Rightarrow> Inl p | Inr a0 \<Rightarrow>
         (case index argNames 1 of Inl p \<Rightarrow> Inl p | Inr a1 \<Rightarrow>
            Inr (''('' @ a0 @ '' '' @ sqlOp @ '' '' @ a1 @ '')'')))
      else Inr (funcName @ ''('' @ Join argNames '', '' @ '')''))"

text \<open>
  The loop of \<open>makeSQL\<close> over the pieces of a dotted path: every piece but the last
  after \<open>->\<close>, the last after \<open>->>\<close>.
\<close>

fun path_loop :: "string list \<Rightarrow> string \<Rightarrow> string" where
  "path_loop [] retVal = retVal"
| "path_loop [x] retVal = retVal @ ''->>'' @ apos @ x @ apos"
| "path_loop (x # y # ys) retVal = path_loop (y # ys) (retVal @ ''->'' @ apos @ x @ apos)"

text \<open>
  \<open>makeSQL\<close>, \<open>sqlFromCall\<close> and \<open>sqlFromSelect\<close> with the counter
  \<open>fs.selects\<close> passed in and returned: a result is the text and the counter after
  the call, or the panic that ended the call. \<open>sqlFromCall_args\<close> is the loop of
  \<open>sqlFromCall\<close> that renders the arguments in order.
\<close>

fun makeSQL :: "filtering \<Rightarrow> expr \<Rightarrow> int \<Rightarrow> panic + (string \<times> int)"
  and sqlFromCall :: "filtering \<Rightarrow> string \<Rightarrow> expr list \<Rightarrow> int \<Rightarrow> panic + (string \<times> int)"
  and sqlFromCall_args :: "filtering \<Rightarrow> expr list \<Rightarrow> string list \<Rightarrow> int \<Rightarrow> panic + (string list \<times> int)"
  and sqlFromSelect :: "filtering \<Rightarrow> expr \<Rightarrow> string \<Rightarrow> int \<Rightarrow> panic + (string \<times> int)"
where
  "makeSQL E (CallExpr funcName args) selects = sqlFromCall E funcName args selects"
| "makeSQL E (SelectExpr operand field) selects =
     (case sqlFromSelect E operand field (selects + 1) of
        Inl p \<Rightarrow> Inl p
      | Inr (retStr, selects') \<Rightarrow>
          (let selects'' = selects' - 1
           in if selects'' = 0
              then Inr (path_loop (Split retStr (CHR ''.'')) ''data'', selects'')
              else Inr (retStr, selects'')))"
| "makeSQL E (IdentExpr name) selects =
     (if selects > 0 then Inr (name, selects)
      else Inr (''data->>'' @ apos @ name @ apos, selects))"
| "makeSQL E (ConstExpr c_expr) selects = Inr (getConstantValue E c_expr, selects)"
| "makeSQL E OtherExpr selects = Inr (''NO SQL'', selects)"
| "sqlFromCall E funcName args selects =
     (case sqlFromCall_args E args [] selects of
        Inl p \<Rightarrow> Inl p
      | Inr (argNames, selects') \<Rightarrow>
          (case render_call funcName (sqlOp_of E funcName) argNames of
             Inl p \<Rightarrow> Inl p
           | Inr s \<Rightarrow> Inr (s, selects')))"
| "sqlFromCall_args E [] argNames selects = Inr (argNames, selects)"
| "sqlFromCall_args E (arg # args) argNames selects =
     (case makeSQL E arg selects of
        Inl p \<Rightarrow> Inl p
      | Inr (s, selects') \<Rightarrow> sqlFromCall_args E args (argNames @ [s]) selects')"
| "sqlFromSelect E operand field selects =
     (case makeSQL E operand selects of
        Inl p \<Rightarrow> Inl p
      | Inr (operandSQL, selects') \<Rightarrow> Inr (operandSQL @ ''.'' @ field, selects'))"

text \<open>
  \<open>ParseFilter\<close> on a fresh \<open>FilterSQL\<close> (counter 0), as every caller in the store
  uses it. The parse error is only logged.
\<close>

definition ParseFilter :: "filtering \<Rightarrow> string \<Rightarrow> panic + string" where
  "ParseFilter E filt =
     (case Parse E filt of
        Inl err \<Rightarrow> Inr []
      | Inr result \<Rightarrow>
          (case makeSQL E result 0 of Inl p \<Rightarrow> Inl p | Inr (sql, selects) \<Rightarrow> Inr sql))"

section \<open>The pagination cursor (pgsqlstore.go)\<close>

text \<open>
  \<open>strconv.ParseInt(s, 10, 64)\<close>: an optional sign, then decimal digits only. The
  digits are read from the left into an unsigned 64-bit value; the first byte that is
  not a digit is a syntax error, the first step that leaves 64 bits a range error, and
  the signed result must fit 64 bits. The caller only looks at whether there is an error.
\<close>

datatype NumError = ErrSyntax | ErrRange

definition is_digit :: "char \<Rightarrow> bool" where
  "is_digit c = (48 \<le> (of_char c :: nat) \<and> (of_char c :: nat) \<le> 57)"

fun ParseUint_loop :: "string \<Rightarrow> nat \<Rightarrow> NumError + nat" where
  "ParseUint_loop [] n = Inr n"
| "ParseUint_loop (c # cs) n =
     (if \<not> is_digit c then Inl ErrSyntax
      else (let n1 = n * 10 + (of_char c - 48)
            in if 2 ^ 64 \<le> n1 then Inl ErrRange else ParseUint_loop cs n1))"

definition ParseInt :: "string \<Rightarrow> NumError + int64" where
  "ParseInt s =
     (if s = [] then Inl ErrSyntax
      else (let neg = (hd s = CHR ''-'');
                s1 = (if hd s = CHR ''+'' \<or> hd s = CHR ''-'' then tl s else s)
            in if s1 = [] then Inl ErrSyntax
               else (case ParseUint_loop s1 0 of
                       Inl e \<Rightarrow> Inl e
                     | Inr un \<Rightarrow>
                         if \<not> neg \<and> 2 ^ 63 \<le> un then Inl ErrRange
                         else if neg \<and> 2 ^ 63 < un then Inl ErrRange
                         else Inr (if neg then - word_of_nat un else word_of_nat un))))"

text \<open>
  The package \<open>fernet\<close> is imported, not part of the repository: its functions are
  parameters. \<open>'k\<close> is the type of a decoded key and \<open>'s\<close> the state of everything
  outside the program (clock, random source, database). \<open>EncryptAndSign\<close> reads the
  clock and the random source; \<open>VerifyAndDecrypt\<close> reads the clock and returns
  \<open>None\<close> for Go's nil. \<open>Now\<close> is the reading of the clock in nanoseconds since the
  epoch, and a duration is a number of nanoseconds.
\<close>

record ('k, 's) fernet =
  DecodeKey :: "string \<Rightarrow> error + 'k"
  Generate :: "'s \<Rightarrow> (error + 'k) \<times> 's"
  Encode :: "'k \<Rightarrow> string"
  EncryptAndSign :: "string \<Rightarrow> 'k \<Rightarrow> 's \<Rightarrow> (error + string) \<times> 's"
  VerifyAndDecrypt :: "string \<Rightarrow> int \<Rightarrow> 'k list \<Rightarrow> 's \<Rightarrow> string option"
  Now :: "'s \<Rightarrow> int"

definition Second :: int where
  "Second = 1000000000"

definition Hour :: int where
  "Hour = 3600 * Second"

definition encryptInt64 :: "('k, 's) fernet \<Rightarrow> int64 \<Rightarrow> string \<Rightarrow> 's \<Rightarrow> (error + string) \<times> 's" where
  "encryptInt64 F v key s =
     (case DecodeKey F key of
        Inl err \<Rightarrow> (Inl err, s)
      | Inr k \<Rightarrow>
          (case EncryptAndSign F (FormatInt (sint v)) k s of
             (Inl err, s1) \<Rightarrow> (Inl err, s1)
           | (Inr bytes, s1) \<Rightarrow> (Inr bytes, s1)))"

definition decryptInt64 :: "('k, 's) fernet \<Rightarrow> string \<Rightarrow> string \<Rightarrow> int64 \<Rightarrow> 's \<Rightarrow> int64" where
  "decryptInt64 F encrypted key defaultValue s =
     (case DecodeKey F key of
        Inl err \<Rightarrow> defaultValue
      | Inr k \<Rightarrow>
          (case VerifyAndDecrypt F encrypted Hour [k] s of
             None \<Rightarrow> defaultValue
           | Some bytes \<Rightarrow>
               (case ParseInt bytes of
                  Inl err \<Rightarrow> defaultValue
                | Inr decryptedValue \<Rightarrow> decryptedValue)))"

text \<open>
  What the Fernet format promises, stated for the parameters. A token records the second
  in which it was made. \<open>fresh\<close>: the token made in state \<open>s\<close> is not older than
  \<open>ttl\<close> when the clock is read in state \<open>s'\<close>; \<open>stale\<close>: it is older.
\<close>

definition stamp :: "('k, 's) fernet \<Rightarrow> 's \<Rightarrow> int" where
  "stamp F s = (Now F s div Second) * Second"

definition fresh :: "('k, 's) fernet \<Rightarrow> int \<Rightarrow> 's \<Rightarrow> 's \<Rightarrow> bool" where
  "fresh F ttl s s' = (0 \<le> ttl \<and> Now F s \<le> Now F s' \<and> Now F s' \<le> stamp F s + ttl)"

definition stale :: "('k, 's) fernet \<Rightarrow> int \<Rightarrow> 's \<Rightarrow> 's \<Rightarrow> bool" where
  "stale F ttl s s' = (0 \<le> ttl \<and> stamp F s + ttl < Now F s')"

text \<open>A fresh token, verified with the key that made it, gives back its message.\<close>

definition fernet_roundtrip :: "('k, 's) fernet \<Rightarrow> bool" where
  "fernet_roundtrip F =
     (\<forall>msg k s tok s1 ttl s'.
        EncryptAndSign F msg k s = (Inr tok, s1) \<longrightarrow> fresh F ttl s s' \<longrightarrow>
        VerifyAndDecrypt F tok ttl [k] s' = Some msg)"

text \<open>A stale token, and a token verified with another key than its own, is refused.\<close>

definition fernet_refuses :: "('k, 's) fernet \<Rightarrow> bool" where
  "fernet_refuses F =
     (\<forall>msg k s tok s1 ttl k' s'.
        EncryptAndSign F msg k s = (Inr tok, s1) \<longrightarrow> stale F ttl s s' \<or> k' \<noteq> k \<longrightarrow>
        VerifyAndDecrypt F tok ttl [k'] s' = None)"

text \<open>A token is never the empty text.\<close>

definition fernet_tokens_nonempty :: "('k, 's) fernet \<Rightarrow> bool" where
  "fernet_tokens_nonempty F =
     (\<forall>msg k s tok s1. EncryptAndSign F msg k s = (Inr tok, s1) \<longrightarrow> tok \<noteq> [])"

section \<open>The record store (pgsqlstore.go)\<close>

text \<open>
  A gRPC status is its code with the format and the arguments given to
  \<open>status.Errorf\<close>; \<open>status.Error(c, msg)\<close> is the status with no argument.
\<close>

datatype code = NotFound | AlreadyExists | InvalidArgument | Internal

datatype status = Status code string "string list"

text \<open>
  An error of \<open>database/sql\<close> is a \<open>*pq.Error\<close>, with its \<open>Code\<close> and its text,
  or an error of any other type (a cancelled context, a lost connection), with its text.
\<close>

datatype db_error = PqError string string | OtherError string

fun Error :: "db_error \<Rightarrow> string" where
  "Error (PqError c msg) = msg"
| "Error (OtherError msg) = msg"

datatype sqlarg = SqlString string | SqlInt int

text \<open>
  The result of a statement is what its \<open>RowsAffected()\<close> returns. The rows of a query
  are, in order, what \<open>Scan\<close> gives for each: an error, or the id and the text column.
\<close>

type_synonym Result = "db_error + int64"
type_synonym Rows = "(db_error + int64 \<times> string) list"

text \<open>
  The messages. Only the fields the store reads or writes are named; \<open>Fields\<close> holds
  all the others. The three records extend one another only to share the field names.
  \<open>proto.Clone\<close> is the identity on these values.
\<close>

record Timestamp =
  Seconds :: int64
  Nanos :: "32 word"

record Project =
  Name :: string

record Note = Project +
  CreateTime :: "Timestamp option"
  UpdateTime :: "Timestamp option"
  Fields :: string

record Occurrence = Note +
  NoteName :: string

text \<open>
  What the store takes from outside the repository, over the state \<open>'s\<close>: the database
  handle (\<open>ExecContext\<close>, \<open>QueryContext\<close>, \<open>QueryRowContext\<close> followed by the
  \<open>Scan\<close> of one 64-bit column, \<open>Ping\<close>, \<open>Close\<close>), \<open>ptypes.TimestampNow\<close>,
  \<open>uuid.NewRandom\<close> followed by \<open>String\<close>, the functions of package \<open>name\<close> and
  the text form of the messages.
\<close>

record 's externals =
  ExecContext :: "string \<Rightarrow> sqlarg list \<Rightarrow> 's \<Rightarrow> (db_error + Result) \<times> 's"
  QueryContext :: "string \<Rightarrow> sqlarg list \<Rightarrow> 's \<Rightarrow> (db_error + Rows) \<times> 's"
  QueryRowContext :: "string \<Rightarrow> sqlarg list \<Rightarrow> 's \<Rightarrow> (db_error + int64) \<times> 's"
  Ping :: "'s \<Rightarrow> db_error option \<times> 's"
  Close :: "'s \<Rightarrow> 's"
  TimestampNow :: "'s \<Rightarrow> Timestamp \<times> 's"
  NewRandom :: "'s \<Rightarrow> (error + string) \<times> 's"
  FormatProject :: "string \<Rightarrow> string"
  FormatNote :: "string \<Rightarrow> string \<Rightarrow> string"
  ParseNote :: "string \<Rightarrow> error + string \<times> string"
  MarshalOccurrence :: "Occurrence \<Rightarrow> string"
  UnmarshalOccurrence :: "string \<Rightarrow> error + Occurrence"
  MarshalNote :: "Note \<Rightarrow> string"
  UnmarshalNote :: "string \<Rightarrow> error + Note"

text \<open>
  The SQL texts are constants of the package that are declared outside the files at
  hand: they are parameters. A text with one verb \<open>%s\<close> is the pair of what stands
  before the verb and what stands after it.
\<close>

type_synonym format1 = "string \<times> string"

definition Sprintf1 :: "format1 \<Rightarrow> string \<Rightarrow> string" where
  "Sprintf1 f a = fst f @ a @ snd f"

record queries =
  createTables :: string
  insertProject :: string
  deleteProject :: string
  listProjects :: format1
  projectsMaxID :: string
  insertOccurrence :: string
  deleteOccurrence :: string
  listOccurrences :: format1
  occurrenceMaxID :: format1
  insertNote :: string
  deleteNote :: string
  listNotes :: format1
  notesMaxID :: format1

text \<open>
  The store. The connector and the database handle opened from it are part of the state
  \<open>'s\<close>; the store keeps the key. \<open>db.Exec\<close> is \<open>ExecContext\<close> with the
  background context.
\<close>

record PgSQLStore =
  paginationKey :: string

definition NewStoreWithCustomConnector ::
  "('k, 's) fernet \<Rightarrow> 's externals \<Rightarrow> queries \<Rightarrow> string \<Rightarrow> 's \<Rightarrow> (error + PgSQLStore) \<times> 's" where
  "NewStoreWithCustomConnector F D Q paginationKey0 s =
     (case (if paginationKey0 = []
            then (case Generate F s of
                    (Inl err, s1) \<Rightarrow> (Inl (''failed to generate pagination key, '' @ err), s1)
                  | (Inr key, s1) \<Rightarrow> (Inr (Encode F key), s1))
            else (case DecodeKey F paginationKey0 of
                    Inl err \<Rightarrow> (Inl ''invalid pagination key; must be 256-bit URL-safe base64'', s)
                  | Inr k \<Rightarrow> (Inr paginationKey0, s))) of
        (Inl e, s1) \<Rightarrow> (Inl e, s1)
      | (Inr paginationKey1, s1) \<Rightarrow>
          (case Ping D s1 of
             (Some err, s2) \<Rightarrow> (Inl (''failed to ping the database server, err: '' @ Error err), s2)
           | (None, s2) \<Rightarrow>
               (case ExecContext D (createTables Q) [] s2 of
                  (Inl err, s3) \<Rightarrow> (Inl (''failed to create tables, err: '' @ Error err), Close D s3)
                | (Inr r, s3) \<Rightarrow> (Inr \<lparr>paginationKey = paginationKey1\<rparr>, s3))))"

definition CreateProject ::
  "'s externals \<Rightarrow> queries \<Rightarrow> string \<Rightarrow> Project \<Rightarrow> 's \<Rightarrow> (status + Project) \<times> 's" where
  "CreateProject D Q pID p s =
     (case ExecContext D (insertProject Q) [SqlString (FormatProject D pID)] s of
        (Inl (PqError c msg), s1) \<Rightarrow>
          if c = ''23505''
          then (Inl (Status AlreadyExists ''Project with name %q already exists'' [pID]), s1)
          else (Inl (Status Internal ''Failed to insert Project in database'' []), s1)
      | (Inl (OtherError msg), s1) \<Rightarrow> (Inr p, s1)
      | (Inr r, s1) \<Rightarrow> (Inr p, s1))"

definition DeleteProject :: "'s externals \<Rightarrow> queries \<Rightarrow> string \<Rightarrow> 's \<Rightarrow> (status + unit) \<times> 's" where
  "DeleteProject D Q pID s =
     (let pName = FormatProject D pID
      in case ExecContext D (deleteProject Q) [SqlString pName] s of
           (Inl err, s1) \<Rightarrow> (Inl (Status Internal ''Failed to delete Project from database'' []), s1)
         | (Inr (Inl err), s1) \<Rightarrow>
             (Inl (Status Internal ''Failed to delete Project from database'' []), s1)
         | (Inr (Inr count), s1) \<Rightarrow>
             if count = 0
             then (Inl (Status NotFound ''Project with name %q does not Exist'' [pName]), s1)
             else (Inr (), s1))"

definition CreateOccurrence ::
  "'s externals \<Rightarrow> queries \<Rightarrow> string \<Rightarrow> string \<Rightarrow> Occurrence \<Rightarrow> 's \<Rightarrow> (status + Occurrence) \<times> 's" where
  "CreateOccurrence D Q pID uID o0 s =
     (case TimestampNow D s of (now, s1) \<Rightarrow>
      (let o1 = o0\<lparr>CreateTime := Some now\<rparr>
       in case NewRandom D s1 of
            (Inl err, s2) \<Rightarrow> (Inl (Status Internal ''Failed to generate UUID'' []), s2)
          | (Inr id', s2) \<Rightarrow>
              (let o2 = o1\<lparr>Name := ''projects/'' @ pID @ ''/occurrences/'' @ id'\<rparr>
               in case ParseNote D (NoteName o2) of
                    Inl err \<Rightarrow> (Inl (Status InvalidArgument ''Invalid note name'' []), s2)
                  | Inr (nPID, nID) \<Rightarrow>
                      (case ExecContext D (insertOccurrence Q)
                              [SqlString pID, SqlString id', SqlString nPID, SqlString nID,
                               SqlString (MarshalOccurrence D o2)] s2 of
                         (Inl (PqError c msg), s3) \<Rightarrow>
                           if c = ''23505''
                           then (Inl (Status AlreadyExists
                                        ''Occurrence with name %q already exists'' [Name o2]), s3)
                           else (Inl (Status Internal
                                        ''Failed to insert Occurrence in database'' []), s3)
                       | (Inl (OtherError msg), s3) \<Rightarrow> (Inr o2, s3)
                       | (Inr r, s3) \<Rightarrow> (Inr o2, s3)))))"

text \<open>The second loop of \<open>BatchCreateOccurrences\<close>: an item whose creation fails is skipped.\<close>

fun BatchCreateOccurrences_loop ::
  "'s externals \<Rightarrow> queries \<Rightarrow> string \<Rightarrow> string \<Rightarrow> Occurrence list \<Rightarrow> Occurrence list \<Rightarrow> 's
   \<Rightarrow> Occurrence list \<times> 's" where
  "BatchCreateOccurrences_loop D Q pID uID [] created s = (created, s)"
| "BatchCreateOccurrences_loop D Q pID uID (o0 # occs) created s =
     (case CreateOccurrence D Q pID uID o0 s of
        (Inl err, s1) \<Rightarrow> BatchCreateOccurrences_loop D Q pID uID occs created s1
      | (Inr occ, s1) \<Rightarrow> BatchCreateOccurrences_loop D Q pID uID occs (created @ [occ]) s1)"

definition BatchCreateOccurrences ::
  "'s externals \<Rightarrow> queries \<Rightarrow> string \<Rightarrow> string \<Rightarrow> Occurrence list \<Rightarrow> 's
   \<Rightarrow> (Occurrence list \<times> status list) \<times> 's" where
  "BatchCreateOccurrences D Q pID uID occs s =
     (let clonedOccs = map (\<lambda>o0. o0) occs;
          errs = []
      in case BatchCreateOccurrences_loop D Q pID uID clonedOccs [] s of
           (created, s1) \<Rightarrow> ((created, errs), s1))"

definition DeleteOccurrence ::
  "'s externals \<Rightarrow> queries \<Rightarrow> string \<Rightarrow> string \<Rightarrow> 's \<Rightarrow> (status + unit) \<times> 's" where
  "DeleteOccurrence D Q pID oID s =
     (case ExecContext D (deleteOccurrence Q) [SqlString pID, SqlString oID] s of
        (Inl err, s1) \<Rightarrow> (Inl (Status Internal ''Failed to delete Occurrence from database'' []), s1)
      | (Inr (Inl err), s1) \<Rightarrow>
          (Inl (Status Internal ''Failed to delete Occurrence from database'' []), s1)
      | (Inr (Inr count), s1) \<Rightarrow>
          if count = 0
          then (Inl (Status NotFound ''Occurrence with name %q/%q does not Exist'' [pID, oID]), s1)
          else (Inr (), s1))"

definition CreateNote ::
  "'s externals \<Rightarrow> queries \<Rightarrow> string \<Rightarrow> string \<Rightarrow> string \<Rightarrow> Note \<Rightarrow> 's \<Rightarrow> (status + Note) \<times> 's" where
  "CreateNote D Q pID nID uID n0 s =
     (let nName = FormatNote D pID nID;
          n1 = n0\<lparr>Name := nName\<rparr>
      in case TimestampNow D s of (now, s1) \<Rightarrow>
         (let n2 = n1\<lparr>CreateTime := Some now\<rparr>
          in case ExecContext D (insertNote Q)
                    [SqlString pID, SqlString nID, SqlString (MarshalNote D n2)] s1 of
               (Inl (PqError c msg), s2) \<Rightarrow>
                 if c = ''23505''
                 then (Inl (Status AlreadyExists ''Note with name %q already exists'' [Name n2]), s2)
                 else (Inl (Status Internal ''Failed to insert Note in database'' []), s2)
             | (Inl (OtherError msg), s2) \<Rightarrow> (Inr n2, s2)
             | (Inr r, s2) \<Rightarrow> (Inr n2, s2)))"

text \<open>
  \<open>BatchCreateNotes\<close> ranges over a Go map, in an order the language leaves open: the
  map is given as the list of its entries in the order of that run.
\<close>

fun BatchCreateNotes_loop ::
  "'s externals \<Rightarrow> queries \<Rightarrow> string \<Rightarrow> string \<Rightarrow> (string \<times> Note) list \<Rightarrow> Note list \<Rightarrow> 's
   \<Rightarrow> Note list \<times> 's" where
  "BatchCreateNotes_loop D Q pID uID [] created s = (created, s)"
| "BatchCreateNotes_loop D Q pID uID ((nID, n0) # notes) created s =
     (case CreateNote D Q pID nID uID n0 s of
        (Inl err, s1) \<Rightarrow> BatchCreateNotes_loop D Q pID uID notes created s1
      | (Inr note, s1) \<Rightarrow> BatchCreateNotes_loop D Q pID uID notes (created @ [note]) s1)"

definition BatchCreateNotes ::
  "'s externals \<Rightarrow> queries \<Rightarrow> string \<Rightarrow> string \<Rightarrow> (string \<times> Note) list \<Rightarrow> 's
   \<Rightarrow> (Note list \<times> status list) \<times> 's" where
  "BatchCreateNotes D Q pID uID notes s =
     (let clonedNotes = map (\<lambda>(nID, n0). (nID, n0)) notes;
          errs = []
      in case BatchCreateNotes_loop D Q pID uID clonedNotes [] s of
           (created, s1) \<Rightarrow> ((created, errs), s1))"

definition DeleteNote ::
  "'s externals \<Rightarrow> queries \<Rightarrow> string \<Rightarrow> string \<Rightarrow> 's \<Rightarrow> (status + unit) \<times> 's" where
  "DeleteNote D Q pID nID s =
     (case ExecContext D (deleteNote Q) [SqlString pID, SqlString nID] s of
        (Inl err, s1) \<Rightarrow> (Inl (Status Internal ''Failed to delete Note from database'' []), s1)
      | (Inr (Inl err), s1) \<Rightarrow> (Inl (Status Internal ''Failed to delete Note from database'' []), s1)
      | (Inr (Inr count), s1) \<Rightarrow>
          if count = 0
          then (Inl (Status NotFound ''Note with name %q/%q does not Exist'' [pID, nID]), s1)
          else (Inr (), s1))"

text \<open>\<open>pg.max\<close>: the one column of the one row of the query.\<close>

definition pg_max :: "'s externals \<Rightarrow> string \<Rightarrow> sqlarg list \<Rightarrow> 's \<Rightarrow> (db_error + int64) \<times> 's" where
  "pg_max D query args s =
     (case QueryRowContext D query args s of
        (Inl err, s1) \<Rightarrow> (Inl err, s1)
      | (Inr count, s1) \<Rightarrow> (Inr count, s1))"

text \<open>
  The first statement of each of the three List functions: the text added to the
  \<open>WHERE\<close> clause, from a filter compiled on a fresh \<open>FilterSQL\<close>.
\<close>

definition filterQuery_of :: "filtering \<Rightarrow> string \<Rightarrow> panic + string" where
  "filterQuery_of E filt =
     (if filt \<noteq> []
      then (case ParseFilter E filt of Inl p \<Rightarrow> Inl p | Inr sql \<Rightarrow> Inr ('' AND '' @ sql))
      else Inr [])"

text \<open>The loops over \<open>rows.Next()\<close>: the items so far and the id scanned last.\<close>

fun scan_Projects :: "Rows \<Rightarrow> Project list \<Rightarrow> int64 \<Rightarrow> status + Project list \<times> int64" where
  "scan_Projects [] projects lastID = Inr (projects, lastID)"
| "scan_Projects (Inl err # rows) projects lastID =
     Inl (Status Internal ''Failed to scan Project row'' [])"
| "scan_Projects (Inr (id', name) # rows) projects lastID =
     scan_Projects rows (projects @ [\<lparr>Name = name\<rparr>]) id'"

fun scan_Occurrences ::
  "'s externals \<Rightarrow> Rows \<Rightarrow> Occurrence list \<Rightarrow> int64 \<Rightarrow> status + Occurrence list \<times> int64" where
  "scan_Occurrences D [] os lastID = Inr (os, lastID)"
| "scan_Occurrences D (Inl err # rows) os lastID =
     Inl (Status Internal ''Failed to scan Occurrences row'' [])"
| "scan_Occurrences D (Inr (id', data) # rows) os lastID =
     (case UnmarshalOccurrence D data of
        Inl err \<Rightarrow> Inl (Status Internal ''Failed to unmarshal Occurrence from database'' [])
      | Inr o1 \<Rightarrow> scan_Occurrences D rows (os @ [o1]) id')"

fun scan_Notes :: "'s externals \<Rightarrow> Rows \<Rightarrow> Note list \<Rightarrow> int64 \<Rightarrow> status + Note list \<times> int64" where
  "scan_Notes D [] ns lastID = Inr (ns, lastID)"
| "scan_Notes D (Inl err # rows) ns lastID =
     Inl (Status Internal ''Failed to scan Notes row'' [])"
| "scan_Notes D (Inr (id', data) # rows) ns lastID =
     (case UnmarshalNote D data of
        Inl err \<Rightarrow> Inl (Status Internal ''Failed to unmarshal Note from database'' [])
      | Inr n1 \<Rightarrow> scan_Notes D rows (ns @ [n1]) id')"

text \<open>
  The List functions. A panic of the filter compiler ends the call before anything
  outside the program is touched. \<open>pageSize\<close> is only handed to the database.
\<close>

definition ListProjects ::
  "filtering \<Rightarrow> ('k, 's) fernet \<Rightarrow> 's externals \<Rightarrow> queries \<Rightarrow> PgSQLStore \<Rightarrow> string \<Rightarrow> int
   \<Rightarrow> string \<Rightarrow> 's \<Rightarrow> panic + (status + Project list \<times> string) \<times> 's" where
  "ListProjects E F D Q pg filt pageSize pageToken s =
     (case filterQuery_of E filt of
        Inl p \<Rightarrow> Inl p
      | Inr filterQuery \<Rightarrow> Inr
          (let query = Sprintf1 (listProjects Q) filterQuery;
               id' = decryptInt64 F pageToken (paginationKey pg) 0 s
           in case QueryContext D query [SqlInt (sint id'), SqlInt pageSize] s of
                (Inl err, s1) \<Rightarrow>
                  (Inl (Status Internal ''Failed to list Projects from database'' []), s1)
              | (Inr rows, s1) \<Rightarrow>
                  (case scan_Projects rows [] 0 of
                     Inl st \<Rightarrow> (Inl st, s1)
                   | Inr (projects, lastID) \<Rightarrow>
                       if length projects = 0 then (Inr (projects, []), s1)
                       else
                         (let maxQuery = (if filterQuery \<noteq> []
                                          then projectsMaxID Q @ '' WHERE '' @ filterQuery
                                          else projectsMaxID Q)
                          in case pg_max D maxQuery [] s1 of
                               (Inl err, s2) \<Rightarrow>
                                 (Inl (Status Internal
                                         ''Failed to query max project id from database'' []), s2)
                             | (Inr maxID, s2) \<Rightarrow>
                                 if sint maxID \<le> sint lastID then (Inr (projects, []), s2)
                                 else
                                   (case encryptInt64 F lastID (paginationKey pg) s2 of
                                      (Inl err, s3) \<Rightarrow>
                                        (Inl (Status Internal ''Failed to paginate projects'' []), s3)
                                    | (Inr encryptedPage, s3) \<Rightarrow>
                                        (Inr (projects, encryptedPage), s3))))))"

definition ListOccurrences ::
  "filtering \<Rightarrow> ('k, 's) fernet \<Rightarrow> 's externals \<Rightarrow> queries \<Rightarrow> PgSQLStore \<Rightarrow> string \<Rightarrow> string
   \<Rightarrow> string \<Rightarrow> 32 word \<Rightarrow> 's \<Rightarrow> panic + (status + Occurrence list \<times> string) \<times> 's" where
  "ListOccurrences E F D Q pg pID filt pageToken pageSize s =
     (case filterQuery_of E filt of
        Inl p \<Rightarrow> Inl p
      | Inr filterQuery \<Rightarrow> Inr
          (let query = Sprintf1 (listOccurrences Q) filterQuery;
               id' = decryptInt64 F pageToken (paginationKey pg) 0 s
           in case QueryContext D query
                     [SqlString pID, SqlInt (sint id'), SqlInt (sint pageSize)] s of
                (Inl err, s1) \<Rightarrow>
                  (Inl (Status Internal ''Failed to list Occurrences from database'' []), s1)
              | (Inr rows, s1) \<Rightarrow>
                  (case scan_Occurrences D rows [] 0 of
                     Inl st \<Rightarrow> (Inl st, s1)
                   | Inr (os, lastID) \<Rightarrow>
                       if length os = 0 then (Inr (os, []), s1)
                       else
                         (let maxQuery = Sprintf1 (occurrenceMaxID Q) filterQuery
                          in case pg_max D maxQuery [SqlString pID] s1 of
                               (Inl err, s2) \<Rightarrow>
                                 (Inl (Status Internal
                                         ''Failed to query max occurrence id from database'' []), s2)
                             | (Inr maxID, s2) \<Rightarrow>
                                 if sint maxID \<le> sint lastID then (Inr (os, []), s2)
                                 else
                                   (case encryptInt64 F lastID (paginationKey pg) s2 of
                                      (Inl err, s3) \<Rightarrow>
                                        (Inl (Status Internal ''Failed to paginate occurrences'' []), s3)
                                    | (Inr encryptedPage, s3) \<Rightarrow>
                                        (Inr (os, encryptedPage), s3))))))"

definition ListNotes ::
  "filtering \<Rightarrow> ('k, 's) fernet \<Rightarrow> 's externals \<Rightarrow> queries \<Rightarrow> PgSQLStore \<Rightarrow> string \<Rightarrow> string
   \<Rightarrow> string \<Rightarrow> 32 word \<Rightarrow> 's \<Rightarrow> panic + (status + Note list \<times> string) \<times> 's" where
  "ListNotes E F D Q pg pID filt pageToken pageSize s =
     (case filterQuery_of E filt of
        Inl p \<Rightarrow> Inl p
      | Inr filterQuery \<Rightarrow> Inr
          (let query = Sprintf1 (listNotes Q) filterQuery;
               id' = decryptInt64 F pageToken (paginationKey pg) 0 s
           in case QueryContext D query
                     [SqlString pID, SqlInt (sint id'), SqlInt (sint pageSize)] s of
                (Inl err, s1) \<Rightarrow>
                  (Inl (Status Internal ''Failed to list Notes from database'' []), s1)
              | (Inr rows, s1) \<Rightarrow>
                  (case scan_Notes D rows [] 0 of
                     Inl st \<Rightarrow> (Inl st, s1)
                   | Inr (ns, lastID) \<Rightarrow>
                       if length ns = 0 then (Inr (ns, []), s1)
                       else
                         (let maxQuery = Sprintf1 (notesMaxID Q) filterQuery
                          in case pg_max D maxQuery [SqlString pID] s1 of
                               (Inl err, s2) \<Rightarrow>
                                 (Inl (Status Internal
                                         ''Failed to query max note id from database'' []), s2)
                             | (Inr maxID, s2) \<Rightarrow>
                                 if sint maxID \<le> sint lastID then (Inr (ns, []), s2)
                                 else
                                   (case encryptInt64 F lastID (paginationKey pg) s2 of
                                      (Inl err, s3) \<Rightarrow>
                                        (Inl (Status Internal ''Failed to paginate notes'' []), s3)
                                    | (Inr encryptedPage, s3) \<Rightarrow>
                                        (Inr (ns, encryptedPage), s3))))))"

section \<open>Notions used to state the results\<close>

text \<open>The id of the last row of a page, as the scan loops leave it in \<open>lastID\<close>.\<close>

definition last_id :: "Rows \<Rightarrow> int64" where
  "last_id rows = (case last rows of Inl err \<Rightarrow> 0 | Inr (id', data) \<Rightarrow> id')"

text \<open>
  What each item of a batch meets when the items are created one after the other, each
  in the state the one before left.
\<close>

fun CreateOccurrence_outcomes ::
  "'s externals \<Rightarrow> queries \<Rightarrow> string \<Rightarrow> string \<Rightarrow> Occurrence list \<Rightarrow> 's
   \<Rightarrow> (status + Occurrence) list" where
  "CreateOccurrence_outcomes D Q pID uID [] s = []"
| "CreateOccurrence_outcomes D Q pID uID (o0 # occs) s =
     (case CreateOccurrence D Q pID uID o0 s of
        (r, s1) \<Rightarrow> r # CreateOccurrence_outcomes D Q pID uID occs s1)"

fun CreateNote_outcomes ::
  "'s externals \<Rightarrow> queries \<Rightarrow> string \<Rightarrow> string \<Rightarrow> (string \<times> Note) list \<Rightarrow> 's
   \<Rightarrow> (status + Note) list" where
  "CreateNote_outcomes D Q pID uID [] s = []"
| "CreateNote_outcomes D Q pID uID ((nID, n0) # notes) s =
     (case CreateNote D Q pID nID uID n0 s of
        (r, s1) \<Rightarrow> r # CreateNote_outcomes D Q pID uID notes s1)"

fun is_AlreadyExists :: "status + 'a \<Rightarrow> bool" where
  "is_AlreadyExists (Inl (Status AlreadyExists fmt args)) = True"
| "is_AlreadyExists r = False"

text \<open>Exactly one item fails, and it fails as a duplicate.\<close>

definition one_duplicate :: "(status + 'a) list \<Rightarrow> bool" where
  "one_duplicate outs =
     (length (filter is_AlreadyExists outs) = 1 \<and> length (filter isl outs) = 1)"

definition created_of :: "(status + 'a) list \<Rightarrow> 'a list" where
  "created_of outs = map projr (filter (\<lambda>r. \<not> isl r) outs)"

section \<open>A small instance of everything outside the repository\<close>

text \<open>
  The theorems below hold for every choice of the parameters. To see them at work, here is
  one choice: the operator names of the Grafeas filtering library with a parser that knows
  one filter and a stand-in for the rendering of doubles, a database
  that answers from a prepared script as the mock of the repository's tests does (each
  entry names the statement it expects; another statement is an error), and a token
  format that keeps the rules of Fernet without its cryptography: the key, one letter for
  each second of the time of issue, a semicolon and the message.
\<close>

definition uri_filter :: string where
  "uri_filter = ''resource.uri=\"a.rpm\" OR resource.uri=\"https://a.com/b/c/a.rpm\"''"

text \<open>The tree of \<open>uri_filter\<close>: an OR of two equalities between a field path and a text.\<close>

definition uri_filter_expr :: "filtering \<Rightarrow> expr" where
  "uri_filter_expr E =
     CallExpr (LogicalOr E)
       [CallExpr (Equals E)
          [SelectExpr (IdentExpr ''resource'') ''uri'', ConstExpr (StringValue ''a.rpm'')],
        CallExpr (Equals E)
          [SelectExpr (IdentExpr ''resource'') ''uri'',
           ConstExpr (StringValue ''https://a.com/b/c/a.rpm'')]]"

definition cel_names :: "(string \<Rightarrow> error + expr) \<Rightarrow> filtering" where
  "cel_names parse =
     \<lparr>Equals = ''_==_'', Greater = ''_>_'', GreaterEquals = ''_>=_'', Less = ''_<_'',
      LessEquals = ''_<=_'', NotEquals = ''_!=_'', LogicalAnd = ''_&&_'', LogicalOr = ''_||_'',
      Index = ''_[_]'', Has = ''_:_'', Sprintf_f = (\<lambda>v. ''0.000000''), Parse = parse\<rparr>"

definition sample_filtering :: filtering where
  "sample_filtering =
     cel_names (\<lambda>text. if text = uri_filter
                       then Inr (uri_filter_expr (cel_names (\<lambda>t. Inl [])))
                       else Inl ''syntax error'')"

record mock =
  clock :: int
  exec_script :: "(string \<times> (db_error + Result)) list"
  query_script :: "(string \<times> (db_error + Rows)) list"
  row_script :: "(string \<times> (db_error + int64)) list"

definition unexpected :: db_error where
  "unexpected = PqError ''42601'' ''pq: statement not expected''"

definition mock_externals :: "mock externals" where
  "mock_externals =
     \<lparr>ExecContext = (\<lambda>query args s.
        case exec_script s of
          [] \<Rightarrow> (Inl unexpected, s)
        | (text, reply) # rest \<Rightarrow>
            if text = query then (reply, s\<lparr>exec_script := rest\<rparr>) else (Inl unexpected, s)),
      QueryContext = (\<lambda>query args s.
        case query_script s of
          [] \<Rightarrow> (Inl unexpected, s)
        | (text, reply) # rest \<Rightarrow>
            if text = query then (reply, s\<lparr>query_script := rest\<rparr>) else (Inl unexpected, s)),
      QueryRowContext = (\<lambda>query args s.
        case row_script s of
          [] \<Rightarrow> (Inl unexpected, s)
        | (text, reply) # rest \<Rightarrow>
            if text = query then (reply, s\<lparr>row_script := rest\<rparr>) else (Inl unexpected, s)),
      Ping = (\<lambda>s. (None, s)),
      Close = (\<lambda>s. s),
      TimestampNow = (\<lambda>s.
        (\<lparr>Seconds = word_of_int (clock s div Second), Nanos = word_of_int (clock s mod Second)\<rparr>, s)),
      NewRandom = (\<lambda>s. (Inr ''9f0c1a52-6b43-4c1e-8a57-2d1b6e0f3a11'', s)),
      FormatProject = (\<lambda>pID. ''projects/'' @ pID),
      FormatNote = (\<lambda>pID nID. ''projects/'' @ pID @ ''/notes/'' @ nID),
      ParseNote = (\<lambda>n.
        case Split n (CHR ''/'') of
          [a, p, b, i] \<Rightarrow> if a = ''projects'' \<and> b = ''notes'' then Inr (p, i) else Inl ''invalid name''
        | _ \<Rightarrow> Inl ''invalid name''),
      MarshalOccurrence = (\<lambda>o1. Name o1 @ '';'' @ NoteName o1 @ '';'' @ Fields o1),
      UnmarshalOccurrence = (\<lambda>data.
        Inr \<lparr>Name = [], CreateTime = None, UpdateTime = None, Fields = data, NoteName = []\<rparr>),
      MarshalNote = (\<lambda>n1. Name n1 @ '';'' @ Fields n1),
      UnmarshalNote = (\<lambda>data.
        Inr \<lparr>Name = [], CreateTime = None, UpdateTime = None, Fields = data\<rparr>)\<rparr>"

definition sample_queries :: queries where
  "sample_queries =
     \<lparr>createTables = ''CREATE TABLE IF NOT EXISTS projects (id SERIAL PRIMARY KEY, name TEXT UNIQUE)'',
      insertProject = ''INSERT INTO projects(name) VALUES ($1)'',
      deleteProject = ''DELETE FROM projects WHERE name = $1'',
      listProjects = (''SELECT id, name FROM projects WHERE id > $1'', '' ORDER BY id ASC LIMIT $2''),
      projectsMaxID = ''SELECT MAX(id) FROM projects'',
      insertOccurrence = ''INSERT INTO occurrences(project_id, occurrence_id, note_project_id, note_id, data) VALUES ($1, $2, $3, $4, $5)'',
      deleteOccurrence = ''DELETE FROM occurrences WHERE project_id = $1 AND occurrence_id = $2'',
      listOccurrences = (''SELECT id, data FROM occurrences WHERE project_id = $1 AND id > $2'',
                         '' ORDER BY id ASC LIMIT $3''),
      occurrenceMaxID = (''SELECT MAX(id) FROM occurrences WHERE project_id = $1'', []),
      insertNote = ''INSERT INTO notes(project_id, note_id, data) VALUES ($1, $2, $3)'',
      deleteNote = ''DELETE FROM notes WHERE project_id = $1 AND note_id = $2'',
      listNotes = (''SELECT id, data FROM notes WHERE project_id = $1 AND id > $2'',
                   '' ORDER BY id ASC LIMIT $3''),
      notesMaxID = (''SELECT MAX(id) FROM notes WHERE project_id = $1'', [])\<rparr>"

definition toy_fernet :: "(string, mock) fernet" where
  "toy_fernet =
     \<lparr>DecodeKey = (\<lambda>text. if length text = 44 then Inr text else Inl ''invalid key''),
      Generate = (\<lambda>s. (Inr (replicate 44 (CHR ''A'')), s)),
      Encode = (\<lambda>k. k),
      EncryptAndSign = (\<lambda>msg k s.
        if length k = 44 \<and> 0 \<le> clock s
        then (Inr (k @ replicate (nat (clock s div Second)) (CHR ''t'') @ '';'' @ msg), s)
        else (Inl ''cannot encrypt'', s)),
      VerifyAndDecrypt = (\<lambda>tok ttl ks s.
        case ks of
          [k] \<Rightarrow>
            (let body = drop 44 tok;
                 ts = takeWhile (\<lambda>c. c = CHR ''t'') body;
                 issued = int (length ts) * Second
             in if length k = 44 \<and> take 44 tok = k \<and> drop (length ts) body \<noteq> [] \<and>
                   \<not> (0 \<le> ttl \<and> issued + ttl < clock s)
                then Some (drop (length ts + 1) body)
                else None)
        | _ \<Rightarrow> None),
      Now = clock\<rparr>"

definition sample_key :: string where
  "sample_key = ''nQi0NzMjerFtlMnbylnWzMrIlNCsuyzeq8LnBEkgxrk=''"

definition other_key :: string where
  "other_key = ''XxoPtCUzrUv4JV5dS+yQ+MdW7yLEJnRMwigVY/bpgtQ=''"

definition at_time :: "int \<Rightarrow> mock" where
  "at_time t = \<lparr>clock = t, exec_script = [], query_script = [], row_script = []\<rparr>"

text \<open>States of the mock: a script of statements, and one page with its greatest id.\<close>

definition scripted :: "(string \<times> (db_error + Result)) list \<Rightarrow> mock" where
  "scripted script =
     \<lparr>clock = 5000000000, exec_script = script, query_script = [], row_script = []\<rparr>"

definition paged :: "string \<Rightarrow> Rows \<Rightarrow> string \<Rightarrow> int64 \<Rightarrow> mock" where
  "paged page_text rows max_text maxID =
     \<lparr>clock = 5000000000, exec_script = [],
      query_script = [(page_text, Inr rows)], row_script = [(max_text, Inr maxID)]\<rparr>"

definition duplicate_key :: db_error where
  "duplicate_key = PqError ''23505'' ''pq: duplicate key value violates unique constraint''"

definition two_inserts :: "string \<Rightarrow> mock" where
  "two_inserts text = scripted [(text, Inr (Inr 1)), (text, Inl duplicate_key)]"

definition sample_note :: Note where
  "sample_note = \<lparr>Name = [], CreateTime = None, UpdateTime = None, Fields = ''kind: BUILD''\<rparr>"

definition sample_occurrence :: Occurrence where
  "sample_occurrence =
     \<lparr>Name = [], CreateTime = None, UpdateTime = None, Fields = ''kind: BUILD'',
      NoteName = ''projects/p1/notes/n1''\<rparr>"

definition sample_store :: PgSQLStore where
  "sample_store = \<lparr>paginationKey = sample_key\<rparr>"

definition projects_page :: mock where
  "projects_page =
     paged (Sprintf1 (listProjects sample_queries) [])
       [Inr (1, ''projects/p1''), Inr (2, ''projects/p2'')] (projectsMaxID sample_queries) 5"

definition notes_page :: mock where
  "notes_page =
     paged (Sprintf1 (listNotes sample_queries) [])
       [Inr (1, ''kind: BUILD''), Inr (2, ''kind: IMAGE'')]
       (Sprintf1 (notesMaxID sample_queries) []) 5"

definition occurrences_page :: mock where
  "occurrences_page =
     paged (Sprintf1 (listOccurrences sample_queries) [])
       [Inr (3, ''kind: BUILD'')]
       (Sprintf1 (occurrenceMaxID sample_queries) []) 3"

definition empty_page :: mock where
  "empty_page =
     paged (Sprintf1 (listOccurrences sample_queries) []) []
       (Sprintf1 (occurrenceMaxID sample_queries) []) 3"



definition finished :: "mock \<Rightarrow> mock" where
  "finished s = s\<lparr>query_script := [], row_script := []\<rparr>"

section \<open>Decimal texts\<close>

lemma of_char_digit_char:
  assumes "d < 10"
  shows "(of_char (digit_char d) :: nat) = 48 + d"
proof -
  from assms have "d \<in> {0, 1, 2, 3, 4, 5, 6, 7, 8, 9}" by auto
  then show ?thesis by (auto simp: digit_char_def)
qed

lemma is_digit_digit_char: "d < 10 \<Longrightarrow> is_digit (digit_char d)"
  by (simp add: is_digit_def of_char_digit_char)

lemma digits_chars: "c \<in> set (digits n) \<Longrightarrow> is_digit c"
proof (induction n rule: digits.induct)
  case (1 n)
  show ?case
  proof (cases "n < 10")
    case True
    with "1.prems" show ?thesis
      by (simp add: digits.simps [of n] is_digit_digit_char)
  next
    case False
    have "digits n = digits (n div 10) @ [digit_char (n mod 10)]"
      using False by (subst digits.simps) simp
    with "1.prems" have "c \<in> set (digits (n div 10)) \<or> c = digit_char (n mod 10)"
      by auto
    then show ?thesis
      using "1.IH" False by (auto simp: is_digit_digit_char)
  qed
qed

lemma digits_nonempty: "digits n \<noteq> []"
  by (subst digits.simps) simp

lemma FormatInt_no_apostrophe: "CHR 0x27 \<notin> set (FormatInt i)"
proof -
  have "\<not> is_digit (CHR 0x27)" by (simp add: is_digit_def)
  then have "CHR 0x27 \<notin> set (digits m)" for m
    using digits_chars by blast
  then show ?thesis by (simp add: FormatInt_def)
qed

lemma Split_no_sep: "sep \<notin> set s \<Longrightarrow> Split s sep = [s]"
  by (induction s) auto

lemma ParseUint_loop_append:
  "ParseUint_loop (xs @ ys) n =
     (case ParseUint_loop xs n of Inl e \<Rightarrow> Inl e | Inr m \<Rightarrow> ParseUint_loop ys m)"
  by (induction xs arbitrary: n) (simp_all add: Let_def)

lemma ParseUint_loop_digits: "m < 2 ^ 64 \<Longrightarrow> ParseUint_loop (digits m) 0 = Inr m"
proof (induction m rule: digits.induct)
  case (1 n)
  show ?case
  proof (cases "n < 10")
    case True
    then show ?thesis
      by (simp add: digits.simps [of n] is_digit_digit_char of_char_digit_char)
  next
    case False
    have "n div 10 < 2 ^ 64" using "1.prems" by simp
    with "1.IH" False have ih: "ParseUint_loop (digits (n div 10)) 0 = Inr (n div 10)" by simp
    have "n div 10 * 10 + n mod 10 = n" by simp
    with "1.prems" False show ?thesis
      by (simp add: digits.simps [of n] ParseUint_loop_append ih is_digit_digit_char
          of_char_digit_char)
  qed
qed

lemma hd_digits: "is_digit (hd (digits n))"
  using digits_chars [of "hd (digits n)" n] digits_nonempty [of n] by simp

lemma hd_digits_not_sign: "hd (digits n) \<noteq> CHR ''+''" "hd (digits n) \<noteq> CHR ''-''"
  using hd_digits [of n] by (auto simp: is_digit_def)

lemma ParseInt_FormatInt: "ParseInt (FormatInt (sint (v :: int64))) = Inr v"
proof (cases "sint v < 0")
  case True
  define m where "m = nat (- sint v)"
  have "- sint v \<le> 2 ^ 63" using sint_ge [of v] by simp
  then have m: "m \<le> 2 ^ 63" unfolding m_def by (simp add: nat_le_iff)
  then have "m < 2 ^ 64" by simp
  then have p: "ParseUint_loop (digits m) 0 = Inr m" by (rule ParseUint_loop_digits)
  have "int m = - sint v" using True by (simp add: m_def)
  then have "(word_of_nat m :: int64) = word_of_int (- sint v)"
    by (metis of_int_of_nat_eq)
  then have w: "- (word_of_nat m :: int64) = v" by simp
  have "FormatInt (sint v) = CHR ''-'' # digits m" using True by (simp add: FormatInt_def m_def)
  then show ?thesis using m p w by (simp add: ParseInt_def digits_nonempty)
next
  case False
  define m where "m = nat (sint v)"
  have "sint v < 2 ^ 63" using sint_lt [of v] by simp
  then have m: "m < 2 ^ 63" unfolding m_def using False by (simp add: nat_less_iff)
  then have "m < 2 ^ 64" by simp
  then have p: "ParseUint_loop (digits m) 0 = Inr m" by (rule ParseUint_loop_digits)
  have "int m = sint v" using False by (simp add: m_def)
  then have "(word_of_nat m :: int64) = word_of_int (sint v)"
    by (metis of_int_of_nat_eq)
  then have w: "(word_of_nat m :: int64) = v" by simp
  have "FormatInt (sint v) = digits m" using False by (simp add: FormatInt_def m_def)
  then show ?thesis using m p w
    by (simp add: ParseInt_def digits_nonempty hd_digits_not_sign)
qed


section \<open>The filter compiler: results\<close>

lemma sqlOp_of_Equals: "sqlOp_of E (Equals E) = ''=''"
  by (simp add: sqlOp_of_def)

lemma sqlOp_of_LogicalOr: "distinct_operators E \<Longrightarrow> sqlOp_of E (LogicalOr E) = ''OR''"
  by (auto simp add: sqlOp_of_def distinct_operators_def)

lemma sqlOp_of_Has: "distinct_operators E \<Longrightarrow> sqlOp_of E (Has E) = ''like''"
  by (auto simp add: sqlOp_of_def distinct_operators_def)

lemma distinct_operators_cel_names: "distinct_operators (cel_names parse)"
  by (simp add: distinct_operators_def cel_names_def)

lemma Parse_sample_filtering:
  "Parse sample_filtering uri_filter = Inr (uri_filter_expr sample_filtering)"
  by (simp add: sample_filtering_def cel_names_def uri_filter_expr_def)

text \<open>
  The shape of the output in general: a path of several pieces hangs on the column
  \<open>data\<close>, every piece but the last after \<open>->\<close> and the last after \<open>->>\<close>; a
  comparison or a logical operation on two rendered arguments stands in parentheses.
\<close>

lemma path_loop_shape:
  "path_loop (xs @ [x]) retVal =
     retVal @ concat (map (\<lambda>y. ''->'' @ apos @ y @ apos) xs) @ ''->>'' @ apos @ x @ apos"
proof (induction xs arbitrary: retVal)
  case Nil
  show ?case by simp
next
  case (Cons y ys)
  have "path_loop ((y # ys) @ [x]) retVal = path_loop (ys @ [x]) (retVal @ ''->'' @ apos @ y @ apos)"
    by (cases ys) simp_all
  then show ?case by (simp add: Cons.IH)
qed

lemma render_call_binary:
  assumes "sqlOp \<noteq> ''[''" and "sqlOp \<noteq> ''like''" and "sqlOp \<noteq> []"
  shows "render_call funcName sqlOp [a0, a1] = Inr (''('' @ a0 @ '' '' @ sqlOp @ '' '' @ a1 @ '')'')"
  using assms by (simp add: render_call_def index_def)

text \<open>
  C1. Compiling the filter \<open>resource.uri="a.rpm" OR resource.uri="https://a.com/b/c/a.rpm"\<close>,
  whose tree is the OR of two equalities between the path \<open>resource.uri\<close> and a text,
  gives exactly
  \<open>((data->'resource'->>'uri' = 'a.rpm') OR (data->'resource'->>'uri' = 'https://a.com/b/c/a.rpm'))\<close>:
  each binary operation in parentheses, the path anchored at the column \<open>data\<close>, its
  inner piece after \<open>->\<close> and its last piece after \<open>->>\<close>.
\<close>

theorem ParseFilter_uri_filter:
  assumes "distinct_operators E" and "Parse E uri_filter = Inr (uri_filter_expr E)"
  shows "ParseFilter E uri_filter =
     Inr ''((data->'resource'->>'uri' = 'a.rpm') OR (data->'resource'->>'uri' = 'https://a.com/b/c/a.rpm'))''"
  using assms
  by (simp add: ParseFilter_def uri_filter_expr_def sqlOp_of_Equals sqlOp_of_LogicalOr
      render_call_def index_def getConstantValue_def apos_def)

theorem ParseFilter_uri_filter_witness:
  "distinct_operators sample_filtering \<and>
   Parse sample_filtering uri_filter = Inr (uri_filter_expr sample_filtering) \<and>
   ParseFilter sample_filtering uri_filter =
     Inr ''((data->'resource'->>'uri' = 'a.rpm') OR (data->'resource'->>'uri' = 'https://a.com/b/c/a.rpm'))''"
proof -
  have d: "distinct_operators sample_filtering"
    unfolding sample_filtering_def by (rule distinct_operators_cel_names)
  show ?thesis
    using d Parse_sample_filtering ParseFilter_uri_filter [OF d Parse_sample_filtering] by simp
qed

text \<open>
  C10. A call of the operator \<open>has\<close> whose second argument renders without an
  apostrophe, as every signed or unsigned integer constant does, makes the compiler read
  piece 1 of a split that has one piece only: the compilation panics with an index out
  of range and returns neither a predicate nor an error.
\<close>

theorem has_call_panics:
  assumes "distinct_operators E"
    and "makeSQL E lhs selects = Inr (a0, selects')"
    and "rhs = ConstExpr (Int64Value v) \<or> rhs = ConstExpr (Uint64Value u) \<or>
         (\<exists>a1 s. makeSQL E rhs selects' = Inr (a1, s) \<and> CHR 0x27 \<notin> set a1)"
  shows "makeSQL E (CallExpr (Has E) [lhs, rhs]) selects = Inl (IndexOutOfRange 1 1)"
proof -
  from assms(3) obtain a1 s where r: "makeSQL E rhs selects' = Inr (a1, s)" and q: "CHR 0x27 \<notin> set a1"
    by (auto simp: getConstantValue_def FormatInt_no_apostrophe)
  have "formatLikeString a1 = Inl (IndexOutOfRange 1 1)"
    by (simp add: formatLikeString_def Split_no_sep [OF q] index_def)
  then show ?thesis
    using assms(1,2) r by (simp add: sqlOp_of_Has render_call_def index_def)
qed

theorem has_call_panics_witness:
  "distinct_operators sample_filtering \<and>
   makeSQL sample_filtering (IdentExpr ''kind'') 0 = Inr (''data->>'kind'' @ apos, 0) \<and>
   makeSQL sample_filtering (CallExpr (Has sample_filtering) [IdentExpr ''kind'', ConstExpr (Int64Value 5)]) 0
     = Inl (IndexOutOfRange 1 1)"
proof -
  have d: "distinct_operators sample_filtering"
    unfolding sample_filtering_def by (rule distinct_operators_cel_names)
  have l: "makeSQL sample_filtering (IdentExpr ''kind'') 0 = Inr (''data->>'kind'' @ apos, 0)"
    by (simp add: apos_def)
  have r: "ConstExpr (Int64Value 5) = ConstExpr (Int64Value 5) \<or>
           ConstExpr (Int64Value 5) = ConstExpr (Uint64Value 0) \<or>
           (\<exists>a1 s. makeSQL sample_filtering (ConstExpr (Int64Value 5)) 0 = Inr (a1, s) \<and> CHR 0x27 \<notin> set a1)"
    by simp
  show ?thesis
    using d l has_call_panics [OF d l r] by simp
qed

section \<open>The pagination cursor: results\<close>

text \<open>The sample token format keeps the three promises of Fernet.\<close>

lemma takeWhile_marks: "takeWhile (\<lambda>c. c = CHR ''t'') (replicate n (CHR ''t'') @ CHR '';'' # msg) = replicate n (CHR ''t'')"
  by (induction n) simp_all

lemma toy_issue:
  assumes "EncryptAndSign toy_fernet msg k s = (Inr tok, s1)"
  obtains n where "length k = 44"
    and "tok = k @ replicate n (CHR ''t'') @ CHR '';'' # msg"
    and "int n * Second = stamp toy_fernet s"
proof -
  from assms have k: "length k = 44" and c: "0 \<le> clock s"
    and t: "tok = k @ replicate (nat (clock s div Second)) (CHR ''t'') @ CHR '';'' # msg"
    by (auto simp: toy_fernet_def split: if_splits)
  from c have "0 \<le> clock s div Second"
    by (simp add: Second_def pos_imp_zdiv_nonneg_iff)
  then have "int (nat (clock s div Second)) * Second = stamp toy_fernet s"
    by (simp add: stamp_def toy_fernet_def)
  with k t show thesis by (rule that)
qed

lemma toy_verify:
  "length k = 44 \<Longrightarrow>
   VerifyAndDecrypt toy_fernet (k @ replicate n (CHR ''t'') @ CHR '';'' # msg) ttl [k'] s' =
     (if k = k' \<and> \<not> (0 \<le> ttl \<and> int n * Second + ttl < clock s') then Some msg else None)"
  by (auto simp: toy_fernet_def takeWhile_marks Let_def)

lemma toy_fernet_roundtrip: "fernet_roundtrip toy_fernet"
  unfolding fernet_roundtrip_def
proof (intro allI impI)
  fix msg k s tok s1 ttl s'
  assume e: "EncryptAndSign toy_fernet msg k s = (Inr tok, s1)" and f: "fresh toy_fernet ttl s s'"
  from e obtain n where k: "length k = 44"
    and t: "tok = k @ replicate n (CHR ''t'') @ CHR '';'' # msg"
    and n: "int n * Second = stamp toy_fernet s"
    by (rule toy_issue)
  have "clock s' \<le> stamp toy_fernet s + ttl"
    using f by (simp add: fresh_def toy_fernet_def)
  then show "VerifyAndDecrypt toy_fernet tok ttl [k] s' = Some msg"
    unfolding t by (simp add: toy_verify [OF k] n)
qed

lemma toy_fernet_refuses: "fernet_refuses toy_fernet"
  unfolding fernet_refuses_def
proof (intro allI impI)
  fix msg k s tok s1 ttl k' s'
  assume e: "EncryptAndSign toy_fernet msg k s = (Inr tok, s1)"
    and f: "stale toy_fernet ttl s s' \<or> k' \<noteq> k"
  from e obtain n where k: "length k = 44"
    and t: "tok = k @ replicate n (CHR ''t'') @ CHR '';'' # msg"
    and n: "int n * Second = stamp toy_fernet s"
    by (rule toy_issue)
  from f have "k \<noteq> k' \<or> (0 \<le> ttl \<and> stamp toy_fernet s + ttl < clock s')"
    by (auto simp: stale_def toy_fernet_def)
  then show "VerifyAndDecrypt toy_fernet tok ttl [k'] s' = None"
    unfolding t by (auto simp add: toy_verify [OF k] n)
qed

lemma toy_fernet_tokens_nonempty: "fernet_tokens_nonempty toy_fernet"
  unfolding fernet_tokens_nonempty_def
proof (intro allI impI)
  fix msg k s tok s1
  assume "EncryptAndSign toy_fernet msg k s = (Inr tok, s1)"
  then obtain n where "length k = 44" and "tok = k @ replicate n (CHR ''t'') @ CHR '';'' # msg"
    by (rule toy_issue)
  then show "tok \<noteq> []" by simp
qed

lemma sample_key_decodes: "DecodeKey toy_fernet sample_key = Inr sample_key"
  by (simp add: toy_fernet_def sample_key_def)

lemma FormatInt_2: "FormatInt 2 = ''2''"
  by (simp add: FormatInt_def digits.simps [of 2] digit_char_def)

lemma marks_5: "replicate (nat (5000000000 div Second)) (CHR ''t'') = ''ttttt''"
  by code_simp

lemma issue_sample:
  "EncryptAndSign toy_fernet ''2'' sample_key (at_time 5000000000) =
     (Inr (sample_key @ ''ttttt;2''), at_time 5000000000)"
  by (simp add: toy_fernet_def sample_key_def at_time_def marks_5)

lemma encrypt_sample:
  "encryptInt64 toy_fernet 2 sample_key (at_time 5000000000) =
     (Inr (sample_key @ ''ttttt;2''), at_time 5000000000)"
  by (simp add: encryptInt64_def sample_key_decodes FormatInt_2 issue_sample)

lemma other_key_decodes: "DecodeKey toy_fernet other_key = Inr other_key"
  by (simp add: toy_fernet_def other_key_def)

text \<open>
  C2. For every 64-bit id and every key that decodes: a token that \<open>encryptInt64\<close>
  made for the id, decoded with the same key while it is fresh for one hour, gives the
  id again, whatever the default value of the caller is.
\<close>

theorem decryptInt64_encryptInt64:
  assumes "fernet_roundtrip F"
    and "DecodeKey F key = Inr k"
    and "encryptInt64 F v key s = (Inr tok, s1)"
    and "fresh F Hour s s'"
  shows "decryptInt64 F tok key defaultValue s' = v"
proof -
  from assms(2,3) have "EncryptAndSign F (FormatInt (sint v)) k s = (Inr tok, s1)"
    by (auto simp: encryptInt64_def split: prod.splits sum.splits)
  with assms(1,4) have "VerifyAndDecrypt F tok Hour [k] s' = Some (FormatInt (sint v))"
    unfolding fernet_roundtrip_def by blast
  with assms(2) show ?thesis
    by (simp add: decryptInt64_def ParseInt_FormatInt)
qed

theorem decryptInt64_encryptInt64_witness:
  "fernet_roundtrip toy_fernet \<and>
   DecodeKey toy_fernet sample_key = Inr sample_key \<and>
   encryptInt64 toy_fernet 2 sample_key (at_time 5000000000) =
     (Inr (sample_key @ ''ttttt;2''), at_time 5000000000) \<and>
   fresh toy_fernet Hour (at_time 5000000000) (at_time 1805000000000) \<and>
   decryptInt64 toy_fernet (sample_key @ ''ttttt;2'') sample_key 7 (at_time 1805000000000) = 2"
proof -
  have f: "fresh toy_fernet Hour (at_time 5000000000) (at_time 1805000000000)"
    by (simp add: fresh_def stamp_def toy_fernet_def at_time_def Hour_def Second_def)
  show ?thesis
    using toy_fernet_roundtrip sample_key_decodes encrypt_sample f
      decryptInt64_encryptInt64 [OF toy_fernet_roundtrip sample_key_decodes encrypt_sample f, of 7]
    by simp
qed

text \<open>
  C6. Decoding never fails: \<open>decryptInt64\<close> returns a 64-bit value and nothing else.
  It returns the default value of the caller when the key does not decode, when the token
  is older than one hour or was made with another key than the one given (the library
  refuses both), when the library refuses the token for any other reason, and when the
  decrypted text is not a decimal 64-bit integer.
\<close>

theorem decryptInt64_falls_back:
  assumes "fernet_refuses F"
    and "DecodeKey F key = Inl err \<or>
         (\<exists>k msg k0 s0 s1. DecodeKey F key = Inr k \<and>
            EncryptAndSign F msg k0 s0 = (Inr encrypted, s1) \<and> (stale F Hour s0 s \<or> k \<noteq> k0)) \<or>
         (\<exists>k. DecodeKey F key = Inr k \<and> VerifyAndDecrypt F encrypted Hour [k] s = None) \<or>
         (\<exists>k bytes e. DecodeKey F key = Inr k \<and>
            VerifyAndDecrypt F encrypted Hour [k] s = Some bytes \<and> ParseInt bytes = Inl e)"
  shows "decryptInt64 F encrypted key defaultValue s = defaultValue"
proof -
  consider (nokey) "DecodeKey F key = Inl err"
    | (refused) k where "DecodeKey F key = Inr k" "VerifyAndDecrypt F encrypted Hour [k] s = None"
    | (garbled) k bytes e where "DecodeKey F key = Inr k"
        "VerifyAndDecrypt F encrypted Hour [k] s = Some bytes" "ParseInt bytes = Inl e"
    using assms unfolding fernet_refuses_def by blast
  then show ?thesis
    by cases (simp_all add: decryptInt64_def)
qed

theorem decryptInt64_falls_back_witness:
  "fernet_refuses toy_fernet \<and>
   EncryptAndSign toy_fernet ''2'' sample_key (at_time 5000000000) =
     (Inr (sample_key @ ''ttttt;2''), at_time 5000000000) \<and>
   stale toy_fernet Hour (at_time 5000000000) (at_time 3606000000000) \<and>
   decryptInt64 toy_fernet (sample_key @ ''ttttt;2'') sample_key 7 (at_time 3606000000000) = 7 \<and>
   other_key \<noteq> sample_key \<and>
   decryptInt64 toy_fernet (sample_key @ ''ttttt;2'') other_key 7 (at_time 5000000000) = 7"
proof -
  have st: "stale toy_fernet Hour (at_time 5000000000) (at_time 3606000000000)"
    by (simp add: stale_def stamp_def toy_fernet_def at_time_def Hour_def Second_def)
  have ne: "other_key \<noteq> sample_key"
    by (simp add: other_key_def sample_key_def)
  have h1: "DecodeKey toy_fernet sample_key = Inl [] \<or>
         (\<exists>k msg k0 s0 s1. DecodeKey toy_fernet sample_key = Inr k \<and>
            EncryptAndSign toy_fernet msg k0 s0 = (Inr (sample_key @ ''ttttt;2''), s1) \<and>
            (stale toy_fernet Hour s0 (at_time 3606000000000) \<or> k \<noteq> k0)) \<or>
         (\<exists>k. DecodeKey toy_fernet sample_key = Inr k \<and>
            VerifyAndDecrypt toy_fernet (sample_key @ ''ttttt;2'') Hour [k] (at_time 3606000000000) = None) \<or>
         (\<exists>k bytes e. DecodeKey toy_fernet sample_key = Inr k \<and>
            VerifyAndDecrypt toy_fernet (sample_key @ ''ttttt;2'') Hour [k] (at_time 3606000000000) = Some bytes \<and>
            ParseInt bytes = Inl e)"
    using sample_key_decodes issue_sample st by blast
  have h2: "DecodeKey toy_fernet other_key = Inl [] \<or>
         (\<exists>k msg k0 s0 s1. DecodeKey toy_fernet other_key = Inr k \<and>
            EncryptAndSign toy_fernet msg k0 s0 = (Inr (sample_key @ ''ttttt;2''), s1) \<and>
            (stale toy_fernet Hour s0 (at_time 5000000000) \<or> k \<noteq> k0)) \<or>
         (\<exists>k. DecodeKey toy_fernet other_key = Inr k \<and>
            VerifyAndDecrypt toy_fernet (sample_key @ ''ttttt;2'') Hour [k] (at_time 5000000000) = None) \<or>
         (\<exists>k bytes e. DecodeKey toy_fernet other_key = Inr k \<and>
            VerifyAndDecrypt toy_fernet (sample_key @ ''ttttt;2'') Hour [k] (at_time 5000000000) = Some bytes \<and>
            ParseInt bytes = Inl e)"
    using other_key_decodes issue_sample ne by blast
  show ?thesis
    using toy_fernet_refuses issue_sample st ne
      decryptInt64_falls_back [OF toy_fernet_refuses h1, of 7]
      decryptInt64_falls_back [OF toy_fernet_refuses h2, of 7]
    by simp
qed

section \<open>The record store: results\<close>

text \<open>
  C7. Constructing a store with a non-empty pagination key that the library does not
  decode to a key (as for the text \<open>INVALID_VALUE\<close>) fails with the error
  \<open>invalid pagination key; must be 256-bit URL-safe base64\<close>; no store is returned and
  the database is not touched.
\<close>

theorem NewStore_invalid_key:
  assumes "paginationKey0 \<noteq> []" and "DecodeKey F paginationKey0 = Inl err"
  shows "NewStoreWithCustomConnector F D Q paginationKey0 s =
           (Inl ''invalid pagination key; must be 256-bit URL-safe base64'', s)"
  using assms by (simp add: NewStoreWithCustomConnector_def)

theorem NewStore_invalid_key_witness:
  "''INVALID_VALUE'' \<noteq> [] \<and>
   DecodeKey toy_fernet ''INVALID_VALUE'' = Inl ''invalid key'' \<and>
   NewStoreWithCustomConnector toy_fernet mock_externals sample_queries ''INVALID_VALUE'' (at_time 0) =
     (Inl ''invalid pagination key; must be 256-bit URL-safe base64'', at_time 0)"
proof -
  have n: "''INVALID_VALUE'' \<noteq> []" by simp
  have d: "DecodeKey toy_fernet ''INVALID_VALUE'' = Inl ''invalid key''"
    by (simp add: toy_fernet_def)
  show ?thesis
    using n d NewStore_invalid_key [OF n d] by simp
qed

text \<open>How the mock answers.\<close>

lemma mock_exec_expected:
  "ExecContext mock_externals text args (scripted ((text, reply) # rest)) = (reply, scripted rest)"
  by (simp add: mock_externals_def scripted_def)

lemma mock_now: "TimestampNow mock_externals s =
   (\<lparr>Seconds = word_of_int (clock s div Second), Nanos = word_of_int (clock s mod Second)\<rparr>, s)"
  by (simp add: mock_externals_def)

lemma mock_uuid: "NewRandom mock_externals s = (Inr ''9f0c1a52-6b43-4c1e-8a57-2d1b6e0f3a11'', s)"
  by (simp add: mock_externals_def)

lemma mock_ParseNote: "ParseNote mock_externals ''projects/p1/notes/n1'' = Inr (''p1'', ''n1'')"
  by (simp add: mock_externals_def)

lemma empty_token_default:
  "decryptInt64 toy_fernet [] sample_key 0 s = 0"
  by (simp add: decryptInt64_def toy_fernet_def sample_key_def)

lemma mock_query_expected:
  "QueryContext mock_externals text args (paged text rows max_text maxID) =
     (Inr rows, (paged text rows max_text maxID)\<lparr>query_script := []\<rparr>)"
  by (simp add: mock_externals_def paged_def)

lemma mock_query_unexpected:
  "text' \<noteq> text \<Longrightarrow>
   QueryContext mock_externals text' args (paged text rows max_text maxID) =
     (Inl unexpected, paged text rows max_text maxID)"
  by (simp add: mock_externals_def paged_def)

lemma mock_max_expected:
  "pg_max mock_externals max_text args ((paged text rows max_text maxID)\<lparr>query_script := []\<rparr>) =
     (Inr maxID, (paged text rows max_text maxID)\<lparr>query_script := [], row_script := []\<rparr>)"
  by (simp add: pg_max_def mock_externals_def paged_def)

lemma encrypt_paged:
  "clock s = 5000000000 \<Longrightarrow>
   encryptInt64 toy_fernet 2 sample_key s = (Inr (sample_key @ ''ttttt;2''), s)"
  by (simp add: encryptInt64_def toy_fernet_def sample_key_def FormatInt_2 marks_5)

lemma clock_paged: "clock (paged text rows max_text maxID) = 5000000000"
  by (simp add: paged_def)

lemma ListProjects_sample:
  "ListProjects sample_filtering toy_fernet mock_externals sample_queries sample_store [] 2 []
     projects_page =
   Inr (Inr ([\<lparr>Name = ''projects/p1''\<rparr>, \<lparr>Name = ''projects/p2''\<rparr>], sample_key @ ''ttttt;2''),
        finished projects_page)"
  unfolding ListProjects_def projects_page_def Let_def finished_def
  by (simp add: filterQuery_of_def sample_store_def empty_token_default mock_query_expected
      mock_max_expected encrypt_paged clock_paged)

text \<open>
  C8. Each Delete operation whose statement runs and reports the number of rows it
  affected fails with NotFound when that number is zero and succeeds otherwise.
\<close>

theorem Delete_zero_rows_NotFound:
  "(ExecContext D (deleteProject Q) [SqlString (FormatProject D pID)] s = (Inr (Inr count), s1) \<longrightarrow>
      DeleteProject D Q pID s =
        (if count = 0
         then Inl (Status NotFound ''Project with name %q does not Exist'' [FormatProject D pID])
         else Inr (), s1)) \<and>
   (ExecContext D (deleteNote Q) [SqlString pID, SqlString nID] s = (Inr (Inr count), s1) \<longrightarrow>
      DeleteNote D Q pID nID s =
        (if count = 0
         then Inl (Status NotFound ''Note with name %q/%q does not Exist'' [pID, nID])
         else Inr (), s1)) \<and>
   (ExecContext D (deleteOccurrence Q) [SqlString pID, SqlString oID] s = (Inr (Inr count), s1) \<longrightarrow>
      DeleteOccurrence D Q pID oID s =
        (if count = 0
         then Inl (Status NotFound ''Occurrence with name %q/%q does not Exist'' [pID, oID])
         else Inr (), s1))"
  by (simp add: DeleteProject_def DeleteNote_def DeleteOccurrence_def)

theorem Delete_zero_rows_NotFound_witness:
  "ExecContext mock_externals (deleteProject sample_queries) [SqlString (FormatProject mock_externals ''p1'')]
     (scripted [(deleteProject sample_queries, Inr (Inr 0))]) = (Inr (Inr 0), scripted []) \<and>
   DeleteProject mock_externals sample_queries ''p1'' (scripted [(deleteProject sample_queries, Inr (Inr 0))]) =
     (Inl (Status NotFound ''Project with name %q does not Exist'' [''projects/p1'']), scripted []) \<and>
   ExecContext mock_externals (deleteNote sample_queries) [SqlString ''p1'', SqlString ''n1'']
     (scripted [(deleteNote sample_queries, Inr (Inr 1))]) = (Inr (Inr 1), scripted []) \<and>
   DeleteNote mock_externals sample_queries ''p1'' ''n1'' (scripted [(deleteNote sample_queries, Inr (Inr 1))]) =
     (Inr (), scripted []) \<and>
   ExecContext mock_externals (deleteOccurrence sample_queries) [SqlString ''pid'', SqlString ''oid'']
     (scripted [(deleteOccurrence sample_queries, Inr (Inr 0))]) = (Inr (Inr 0), scripted []) \<and>
   DeleteOccurrence mock_externals sample_queries ''pid'' ''oid''
     (scripted [(deleteOccurrence sample_queries, Inr (Inr 0))]) =
     (Inl (Status NotFound ''Occurrence with name %q/%q does not Exist'' [''pid'', ''oid'']), scripted [])"
proof -
  have fp: "FormatProject mock_externals ''p1'' = ''projects/p1''"
    by (simp add: mock_externals_def)
  show ?thesis
    using Delete_zero_rows_NotFound [of mock_externals sample_queries "''p1''"
        "scripted [(deleteProject sample_queries, Inr (Inr 0))]" 0 "scripted []" "''n1''" "''oid''"]
      Delete_zero_rows_NotFound [of mock_externals sample_queries "''p1''"
        "scripted [(deleteNote sample_queries, Inr (Inr 1))]" 1 "scripted []" "''n1''" "''oid''"]
      Delete_zero_rows_NotFound [of mock_externals sample_queries "''pid''"
        "scripted [(deleteOccurrence sample_queries, Inr (Inr 0))]" 0 "scripted []" "''n1''" "''oid''"]
    by (simp add: mock_exec_expected fp)
qed

text \<open>
  What the Create operations do with an error of the driver itself: the code 23505 of a
  unique violation gives AlreadyExists, every other code Internal.
\<close>

lemma CreateProject_pq_error:
  assumes "ExecContext D (insertProject Q) [SqlString (FormatProject D pID)] s = (Inl (PqError c msg), s1)"
  shows "CreateProject D Q pID p s =
           (Inl (if c = ''23505''
                 then Status AlreadyExists ''Project with name %q already exists'' [pID]
                 else Status Internal ''Failed to insert Project in database'' []), s1)"
  using assms by (simp add: CreateProject_def)

lemma CreateProject_inserted:
  assumes "ExecContext D (insertProject Q) [SqlString (FormatProject D pID)] s = (Inr r, s1)"
  shows "CreateProject D Q pID p s = (Inr p, s1)"
  using assms by (simp add: CreateProject_def)

text \<open>
  C5, at the inputs where the code leaves it. \<open>CreateProject\<close> and \<open>CreateNote\<close>
  look at the error of the insert only when it is a \<open>*pq.Error\<close>: when the insert
  fails with an error of another type (a cancelled context, a lost connection), they
  return the item and no error, as if the row had been written.
\<close>

theorem Create_swallows_other_errors:
  "(ExecContext D (insertProject Q) [SqlString (FormatProject D pID)] s = (Inl (OtherError msg), s1) \<longrightarrow>
      CreateProject D Q pID p s = (Inr p, s1)) \<and>
   (TimestampNow D s = (now, s0) \<longrightarrow>
    ExecContext D (insertNote Q)
      [SqlString pID, SqlString nID,
       SqlString (MarshalNote D (n\<lparr>Name := FormatNote D pID nID, CreateTime := Some now\<rparr>))] s0
      = (Inl (OtherError msg), s1) \<longrightarrow>
      CreateNote D Q pID nID uID n s =
        (Inr (n\<lparr>Name := FormatNote D pID nID, CreateTime := Some now\<rparr>), s1))"
  by (simp add: CreateProject_def CreateNote_def)

theorem Create_swallows_other_errors_witness:
  "ExecContext mock_externals (insertProject sample_queries) [SqlString (FormatProject mock_externals ''p1'')]
     (scripted [(insertProject sample_queries, Inl (OtherError ''context canceled''))])
     = (Inl (OtherError ''context canceled''), scripted []) \<and>
   CreateProject mock_externals sample_queries ''p1'' \<lparr>Name = ''projects/p1''\<rparr>
     (scripted [(insertProject sample_queries, Inl (OtherError ''context canceled''))])
     = (Inr \<lparr>Name = ''projects/p1''\<rparr>, scripted []) \<and>
   CreateNote mock_externals sample_queries ''p1'' ''n1'' ''u1'' sample_note
     (scripted [(insertNote sample_queries, Inl (OtherError ''context canceled''))])
     = (Inr (sample_note\<lparr>Name := FormatNote mock_externals ''p1'' ''n1'',
               CreateTime := Some (fst (TimestampNow mock_externals (scripted [])))\<rparr>),
        scripted [])"
proof -
  have n: "TimestampNow mock_externals
             (scripted [(insertNote sample_queries, Inl (OtherError ''context canceled''))]) =
           (fst (TimestampNow mock_externals (scripted [])),
            scripted [(insertNote sample_queries, Inl (OtherError ''context canceled''))])"
    by (simp add: mock_now scripted_def)
  show ?thesis
    using Create_swallows_other_errors [of mock_externals sample_queries "''p1''"
        "scripted [(insertProject sample_queries, Inl (OtherError ''context canceled''))]"
        "''context canceled''" "scripted []" "\<lparr>Name = ''projects/p1''\<rparr>"]
      Create_swallows_other_errors [of mock_externals sample_queries "''p1''"
        "scripted [(insertNote sample_queries, Inl (OtherError ''context canceled''))]"
        "''context canceled''" "scripted []" _
        "fst (TimestampNow mock_externals (scripted []))"
        "scripted [(insertNote sample_queries, Inl (OtherError ''context canceled''))]"
        "''n1''" sample_note "''u1''", THEN conjunct2, THEN mp, OF n]
    by (simp add: mock_exec_expected)
qed

text \<open>The batch loops collect, in order, the items whose creation succeeded.\<close>

lemma BatchCreateOccurrences_loop_created:
  "fst (BatchCreateOccurrences_loop D Q pID uID occs created s) =
     created @ created_of (CreateOccurrence_outcomes D Q pID uID occs s)"
  by (induction occs arbitrary: created s)
     (auto simp: created_of_def split: prod.splits sum.splits)

lemma BatchCreateNotes_loop_created:
  "fst (BatchCreateNotes_loop D Q pID uID items created s) =
     created @ created_of (CreateNote_outcomes D Q pID uID items s)"
  by (induction items arbitrary: created s)
     (auto simp: created_of_def split: prod.splits sum.splits)

lemma length_CreateOccurrence_outcomes:
  "length (CreateOccurrence_outcomes D Q pID uID occs s) = length occs"
  by (induction occs arbitrary: s) (auto split: prod.splits)

lemma length_CreateNote_outcomes:
  "length (CreateNote_outcomes D Q pID uID items s) = length items"
  by (induction items arbitrary: s) (auto split: prod.splits)

lemma one_duplicate_created:
  assumes "one_duplicate outs"
  shows "length (created_of outs) = length outs - 1"
proof -
  have "length (filter isl outs) + length (filter (\<lambda>r. \<not> isl r) outs) = length outs"
    by (rule sum_length_filter_compl)
  with assms show ?thesis
    by (simp add: one_duplicate_def created_of_def)
qed

lemma sample_note_outcomes:
  "map isl (CreateNote_outcomes mock_externals sample_queries ''p1'' ''u1''
     [(''n1'', sample_note), (''n2'', sample_note)] (two_inserts (insertNote sample_queries)))
   = [False, True] \<and>
   map is_AlreadyExists (CreateNote_outcomes mock_externals sample_queries ''p1'' ''u1''
     [(''n1'', sample_note), (''n2'', sample_note)] (two_inserts (insertNote sample_queries)))
   = [False, True]"
  by (simp add: two_inserts_def CreateNote_def mock_now mock_exec_expected duplicate_key_def)

lemma sample_occurrence_outcomes:
  "map isl (CreateOccurrence_outcomes mock_externals sample_queries ''p1'' ''u1''
     [sample_occurrence, sample_occurrence] (two_inserts (insertOccurrence sample_queries)))
   = [False, True] \<and>
   map is_AlreadyExists (CreateOccurrence_outcomes mock_externals sample_queries ''p1'' ''u1''
     [sample_occurrence, sample_occurrence] (two_inserts (insertOccurrence sample_queries)))
   = [False, True]"
  by (simp add: two_inserts_def CreateOccurrence_def mock_now mock_uuid mock_exec_expected
      duplicate_key_def sample_occurrence_def mock_ParseNote)

lemma one_duplicate_by_maps:
  assumes "map isl outs = [False, True]" and "map is_AlreadyExists outs = [False, True]"
  shows "one_duplicate outs"
proof -
  from assms(1) obtain a b where "outs = [a, b]" by (auto simp: map_eq_Cons_conv)
  with assms show ?thesis by (simp add: one_duplicate_def)
qed

text \<open>
  C9. A batch creation in which exactly one item fails, as a duplicate of an existing
  row, returns the other items (one less than given) and an empty list of errors.
\<close>

theorem BatchCreate_one_duplicate:
  "(one_duplicate (CreateOccurrence_outcomes D Q pID uID occs s) \<longrightarrow>
      (\<exists>created s'. BatchCreateOccurrences D Q pID uID occs s = ((created, []), s') \<and>
         created = created_of (CreateOccurrence_outcomes D Q pID uID occs s) \<and>
         length created = length occs - 1)) \<and>
   (one_duplicate (CreateNote_outcomes D Q pID uID items s) \<longrightarrow>
      (\<exists>created s'. BatchCreateNotes D Q pID uID items s = ((created, []), s') \<and>
         created = created_of (CreateNote_outcomes D Q pID uID items s) \<and>
         length created = length items - 1))"
proof (intro conjI impI)
  assume d: "one_duplicate (CreateOccurrence_outcomes D Q pID uID occs s)"
  obtain created s' where l: "BatchCreateOccurrences_loop D Q pID uID occs [] s = (created, s')"
    by (cases "BatchCreateOccurrences_loop D Q pID uID occs [] s")
  then have c: "created = created_of (CreateOccurrence_outcomes D Q pID uID occs s)"
    using BatchCreateOccurrences_loop_created [of D Q pID uID occs "[]" s] by simp
  have "length created = length occs - 1"
    using one_duplicate_created [OF d] c by (simp add: length_CreateOccurrence_outcomes)
  with l c show "\<exists>created s'. BatchCreateOccurrences D Q pID uID occs s = ((created, []), s') \<and>
         created = created_of (CreateOccurrence_outcomes D Q pID uID occs s) \<and>
         length created = length occs - 1"
    by (simp add: BatchCreateOccurrences_def)
next
  assume d: "one_duplicate (CreateNote_outcomes D Q pID uID items s)"
  obtain created s' where l: "BatchCreateNotes_loop D Q pID uID items [] s = (created, s')"
    by (cases "BatchCreateNotes_loop D Q pID uID items [] s")
  then have c: "created = created_of (CreateNote_outcomes D Q pID uID items s)"
    using BatchCreateNotes_loop_created [of D Q pID uID items "[]" s] by simp
  have "length created = length items - 1"
    using one_duplicate_created [OF d] c by (simp add: length_CreateNote_outcomes)
  moreover have "map (\<lambda>(nID, n0). (nID, n0)) items = items" by (induction items) auto
  ultimately show "\<exists>created s'. BatchCreateNotes D Q pID uID items s = ((created, []), s') \<and>
         created = created_of (CreateNote_outcomes D Q pID uID items s) \<and>
         length created = length items - 1"
    using l c by (simp add: BatchCreateNotes_def)
qed

theorem BatchCreate_one_duplicate_witness:
  "one_duplicate (CreateOccurrence_outcomes mock_externals sample_queries ''p1'' ''u1''
     [sample_occurrence, sample_occurrence] (two_inserts (insertOccurrence sample_queries))) \<and>
   (\<exists>created s'. BatchCreateOccurrences mock_externals sample_queries ''p1'' ''u1''
        [sample_occurrence, sample_occurrence] (two_inserts (insertOccurrence sample_queries))
        = ((created, []), s') \<and> length created = 1) \<and>
   one_duplicate (CreateNote_outcomes mock_externals sample_queries ''p1'' ''u1''
     [(''n1'', sample_note), (''n2'', sample_note)] (two_inserts (insertNote sample_queries))) \<and>
   (\<exists>created s'. BatchCreateNotes mock_externals sample_queries ''p1'' ''u1''
        [(''n1'', sample_note), (''n2'', sample_note)] (two_inserts (insertNote sample_queries))
        = ((created, []), s') \<and> length created = 1)"
proof -
  have o: "one_duplicate (CreateOccurrence_outcomes mock_externals sample_queries ''p1'' ''u1''
     [sample_occurrence, sample_occurrence] (two_inserts (insertOccurrence sample_queries)))"
    using sample_occurrence_outcomes by (intro one_duplicate_by_maps) simp_all
  have n: "one_duplicate (CreateNote_outcomes mock_externals sample_queries ''p1'' ''u1''
     [(''n1'', sample_note), (''n2'', sample_note)] (two_inserts (insertNote sample_queries)))"
    using sample_note_outcomes by (intro one_duplicate_by_maps) simp_all
  from BatchCreate_one_duplicate [of mock_externals sample_queries "''p1''" "''u1''"
      "[sample_occurrence, sample_occurrence]" "two_inserts (insertOccurrence sample_queries)",
      THEN conjunct1, THEN mp, OF o]
  obtain created s' where b: "BatchCreateOccurrences mock_externals sample_queries ''p1'' ''u1''
        [sample_occurrence, sample_occurrence] (two_inserts (insertOccurrence sample_queries))
        = ((created, []), s')"
    and l: "length created = length [sample_occurrence, sample_occurrence] - 1"
    by blast
  from l have "length created = 1" by simp
  with b have A: "\<exists>created s'. BatchCreateOccurrences mock_externals sample_queries ''p1'' ''u1''
        [sample_occurrence, sample_occurrence] (two_inserts (insertOccurrence sample_queries))
        = ((created, []), s') \<and> length created = 1"
    by blast
  from BatchCreate_one_duplicate [of mock_externals sample_queries "''p1''" "''u1''" _
      "two_inserts (insertNote sample_queries)" "[(''n1'', sample_note), (''n2'', sample_note)]",
      THEN conjunct2, THEN mp, OF n]
  obtain created2 s2 where b2: "BatchCreateNotes mock_externals sample_queries ''p1'' ''u1''
        [(''n1'', sample_note), (''n2'', sample_note)] (two_inserts (insertNote sample_queries))
        = ((created2, []), s2)"
    and l2: "length created2 = length [(''n1'', sample_note), (''n2'', sample_note)] - 1"
    by blast
  from l2 have "length created2 = 1" by simp
  with b2 have B: "\<exists>created s'. BatchCreateNotes mock_externals sample_queries ''p1'' ''u1''
        [(''n1'', sample_note), (''n2'', sample_note)] (two_inserts (insertNote sample_queries))
        = ((created, []), s') \<and> length created = 1"
    by blast
  from o A n B show ?thesis by (intro conjI)
qed

text \<open>The scan loops keep one item for each row and the id of the last row.\<close>

lemma last_id_Cons: "rows \<noteq> [] \<Longrightarrow> last_id (r # rows) = last_id rows"
  by (simp add: last_id_def)

lemma last_id_single: "last_id [Inr (i, d)] = i"
  by (simp add: last_id_def)

lemma scan_Projects_result:
  "scan_Projects rows acc l = Inr (items, lastID) \<Longrightarrow>
   length items = length acc + length rows \<and> (rows \<noteq> [] \<longrightarrow> lastID = last_id rows)"
proof (induction rows acc l rule: scan_Projects.induct)
  case (3 i name rows projects lastID0)
  then show ?case
    by (cases "rows = []") (auto simp: last_id_Cons last_id_single)
qed simp_all

lemma scan_Occurrences_result:
  "scan_Occurrences D rows acc l = Inr (items, lastID) \<Longrightarrow>
   length items = length acc + length rows \<and> (rows \<noteq> [] \<longrightarrow> lastID = last_id rows)"
proof (induction D rows acc l rule: scan_Occurrences.induct)
  case (3 D i data rows os lastID0)
  then show ?case
    by (cases "rows = []") (auto simp: last_id_Cons last_id_single split: sum.splits)
qed simp_all

lemma scan_Notes_result:
  "scan_Notes D rows acc l = Inr (items, lastID) \<Longrightarrow>
   length items = length acc + length rows \<and> (rows \<noteq> [] \<longrightarrow> lastID = last_id rows)"
proof (induction D rows acc l rule: scan_Notes.induct)
  case (3 D i data rows ns lastID0)
  then show ?case
    by (cases "rows = []") (auto simp: last_id_Cons last_id_single split: sum.splits)
qed simp_all

lemma encryptInt64_nonempty:
  assumes "fernet_tokens_nonempty F" and "encryptInt64 F v key s = (Inr tok, s1)"
  shows "tok \<noteq> []"
proof -
  from assms(2) obtain k where "EncryptAndSign F (FormatInt (sint v)) k s = (Inr tok, s1)"
    by (auto simp: encryptInt64_def split: sum.splits prod.splits)
  with assms(1) show ?thesis
    unfolding fernet_tokens_nonempty_def by blast
qed

text \<open>
  What the three List functions return, from the answers of the database. The page query
  has answered with \<open>rows\<close> that all scan. After an empty page the token is empty.
  After any other page the second query is asked for the greatest id: when the last id is
  not below it the token is empty, and when it is below the token is the encryption of
  the last id, which is not empty when the tokens of the library never are.
\<close>

lemma ListProjects_emits:
  assumes "filterQuery_of E filt = Inr fq"
    and "QueryContext D (Sprintf1 (listProjects Q) fq)
           [SqlInt (sint (decryptInt64 F pageToken (paginationKey pg) 0 s)), SqlInt pageSize] s
         = (Inr rows, s1)"
    and "scan_Projects rows [] 0 = Inr (projects, lastID)"
  shows "length projects = length rows \<and>
    (rows = [] \<longrightarrow>
       ListProjects E F D Q pg filt pageSize pageToken s = Inr (Inr ([], []), s1)) \<and>
    (rows \<noteq> [] \<longrightarrow>
     pg_max D (if fq \<noteq> [] then projectsMaxID Q @ '' WHERE '' @ fq else projectsMaxID Q) [] s1
       = (Inr maxID, s2) \<longrightarrow>
       (sint maxID \<le> sint (last_id rows) \<longrightarrow>
          ListProjects E F D Q pg filt pageSize pageToken s = Inr (Inr (projects, []), s2)) \<and>
       (sint (last_id rows) < sint maxID \<longrightarrow>
        encryptInt64 F (last_id rows) (paginationKey pg) s2 = (Inr tok, s3) \<longrightarrow>
          ListProjects E F D Q pg filt pageSize pageToken s = Inr (Inr (projects, tok), s3) \<and>
          (fernet_tokens_nonempty F \<longrightarrow> tok \<noteq> [])))"
proof -
  note r = scan_Projects_result [OF assms(3)]
  from r have e: "rows = [] \<Longrightarrow> projects = []" by simp
  from r have l: "rows \<noteq> [] \<Longrightarrow> lastID = last_id rows \<and> projects \<noteq> []" by auto
  show ?thesis
    using assms r e l unfolding ListProjects_def Let_def
    by (auto dest: encryptInt64_nonempty)
qed

lemma ListNotes_emits:
  assumes "filterQuery_of E filt = Inr fq"
    and "QueryContext D (Sprintf1 (listNotes Q) fq)
           [SqlString pID, SqlInt (sint (decryptInt64 F pageToken (paginationKey pg) 0 s)),
            SqlInt (sint pageSize)] s
         = (Inr rows, s1)"
    and "scan_Notes D rows [] 0 = Inr (ns, lastID)"
  shows "length ns = length rows \<and>
    (rows = [] \<longrightarrow>
       ListNotes E F D Q pg pID filt pageToken pageSize s = Inr (Inr ([], []), s1)) \<and>
    (rows \<noteq> [] \<longrightarrow>
     pg_max D (Sprintf1 (notesMaxID Q) fq) [SqlString pID] s1 = (Inr maxID, s2) \<longrightarrow>
       (sint maxID \<le> sint (last_id rows) \<longrightarrow>
          ListNotes E F D Q pg pID filt pageToken pageSize s = Inr (Inr (ns, []), s2)) \<and>
       (sint (last_id rows) < sint maxID \<longrightarrow>
        encryptInt64 F (last_id rows) (paginationKey pg) s2 = (Inr tok, s3) \<longrightarrow>
          ListNotes E F D Q pg pID filt pageToken pageSize s = Inr (Inr (ns, tok), s3) \<and>
          (fernet_tokens_nonempty F \<longrightarrow> tok \<noteq> [])))"
proof -
  note r = scan_Notes_result [OF assms(3)]
  from r have e: "rows = [] \<Longrightarrow> ns = []" by simp
  from r have l: "rows \<noteq> [] \<Longrightarrow> lastID = last_id rows \<and> ns \<noteq> []" by auto
  show ?thesis
    using assms r e l unfolding ListNotes_def Let_def
    by (auto dest: encryptInt64_nonempty)
qed

lemma ListOccurrences_emits:
  assumes "filterQuery_of E filt = Inr fq"
    and "QueryContext D (Sprintf1 (listOccurrences Q) fq)
           [SqlString pID, SqlInt (sint (decryptInt64 F pageToken (paginationKey pg) 0 s)),
            SqlInt (sint pageSize)] s
         = (Inr rows, s1)"
    and "scan_Occurrences D rows [] 0 = Inr (os, lastID)"
  shows "length os = length rows \<and>
    (rows = [] \<longrightarrow>
       ListOccurrences E F D Q pg pID filt pageToken pageSize s = Inr (Inr ([], []), s1)) \<and>
    (rows \<noteq> [] \<longrightarrow>
     pg_max D (Sprintf1 (occurrenceMaxID Q) fq) [SqlString pID] s1 = (Inr maxID, s2) \<longrightarrow>
       (sint maxID \<le> sint (last_id rows) \<longrightarrow>
          ListOccurrences E F D Q pg pID filt pageToken pageSize s = Inr (Inr (os, []), s2)) \<and>
       (sint (last_id rows) < sint maxID \<longrightarrow>
        encryptInt64 F (last_id rows) (paginationKey pg) s2 = (Inr tok, s3) \<longrightarrow>
          ListOccurrences E F D Q pg pID filt pageToken pageSize s = Inr (Inr (os, tok), s3) \<and>
          (fernet_tokens_nonempty F \<longrightarrow> tok \<noteq> [])))"
proof -
  note r = scan_Occurrences_result [OF assms(3)]
  from r have e: "rows = [] \<Longrightarrow> os = []" by simp
  from r have l: "rows \<noteq> [] \<Longrightarrow> lastID = last_id rows \<and> os \<noteq> []" by auto
  show ?thesis
    using assms r e l unfolding ListOccurrences_def Let_def
    by (auto dest: encryptInt64_nonempty)
qed

text \<open>The three at work on the mock: a token, a token, the end of the listing, no row.\<close>

lemma mock_UnmarshalNote:
  "UnmarshalNote mock_externals data =
     Inr \<lparr>Name = [], CreateTime = None, UpdateTime = None, Fields = data\<rparr>"
  by (simp add: mock_externals_def)

lemma mock_UnmarshalOccurrence:
  "UnmarshalOccurrence mock_externals data =
     Inr \<lparr>Name = [], CreateTime = None, UpdateTime = None, Fields = data, NoteName = []\<rparr>"
  by (simp add: mock_externals_def)

lemma ListNotes_sample:
  "ListNotes sample_filtering toy_fernet mock_externals sample_queries sample_store ''p1'' [] [] 2
     notes_page =
   Inr (Inr ([\<lparr>Name = [], CreateTime = None, UpdateTime = None, Fields = ''kind: BUILD''\<rparr>,
              \<lparr>Name = [], CreateTime = None, UpdateTime = None, Fields = ''kind: IMAGE''\<rparr>],
             sample_key @ ''ttttt;2''),
        finished notes_page)"
  unfolding ListNotes_def notes_page_def Let_def finished_def
  by (simp add: filterQuery_of_def sample_store_def empty_token_default mock_query_expected
      mock_max_expected encrypt_paged clock_paged mock_UnmarshalNote)

lemma ListOccurrences_sample:
  "ListOccurrences sample_filtering toy_fernet mock_externals sample_queries sample_store ''p1'' [] [] 2
     occurrences_page =
   Inr (Inr ([\<lparr>Name = [], CreateTime = None, UpdateTime = None, Fields = ''kind: BUILD'',
                NoteName = []\<rparr>], []),
        finished occurrences_page)"
  unfolding ListOccurrences_def occurrences_page_def Let_def finished_def
  by (simp add: filterQuery_of_def sample_store_def empty_token_default mock_query_expected
      mock_max_expected clock_paged mock_UnmarshalOccurrence)

lemma ListOccurrences_empty_sample:
  "ListOccurrences sample_filtering toy_fernet mock_externals sample_queries sample_store ''p1'' [] [] 2
     empty_page =
   Inr (Inr ([], []), empty_page\<lparr>query_script := []\<rparr>)"
  unfolding ListOccurrences_def empty_page_def Let_def
  by (simp add: filterQuery_of_def sample_store_def empty_token_default mock_query_expected)

text \<open>The sample filter on the sample database.\<close>

lemma unparsable: "Parse sample_filtering ''((('' = Inl ''syntax error''"
  by (simp add: sample_filtering_def cel_names_def uri_filter_def)

lemma dangling_unexpected:
  "QueryContext mock_externals
     (fst (listProjects sample_queries) @ '' AND '' @ snd (listProjects sample_queries))
     args projects_page = (Inl unexpected, projects_page)"
  unfolding projects_page_def
  by (rule mock_query_unexpected) (simp add: Sprintf1_def)








text \<open>
  C4, at the inputs where the code leaves it. For a filter that is not empty and does not
  parse, \<open>ParseFilter\<close> returns the empty predicate, and \<open>ListProjects\<close> puts
  \<open>AND\<close> in front of it all the same: the statement it sends ends its \<open>WHERE\<close>
  clause with an \<open>AND\<close> that has no right operand, it is not the statement of the
  unfiltered listing, and when the database refuses it the caller gets an Internal error.
\<close>

theorem List_unparsable_filter:
  assumes "filt \<noteq> []" and "Parse E filt = Inl err"
  shows "ParseFilter E filt = Inr [] \<and> filterQuery_of E filt = Inr '' AND '' \<and>
   Sprintf1 (listProjects Q) '' AND '' \<noteq> Sprintf1 (listProjects Q) [] \<and>
   (\<forall>e s1. QueryContext D (fst (listProjects Q) @ '' AND '' @ snd (listProjects Q))
              [SqlInt (sint (decryptInt64 F pageToken (paginationKey pg) 0 s)), SqlInt pageSize] s
              = (Inl e, s1) \<longrightarrow>
           ListProjects E F D Q pg filt pageSize pageToken s =
             Inr (Inl (Status Internal ''Failed to list Projects from database'' []), s1))"
  using assms
  by (simp add: ParseFilter_def filterQuery_of_def ListProjects_def Sprintf1_def)


theorem List_unparsable_filter_witness:
  "''((('' \<noteq> [] \<and> Parse sample_filtering ''((('' = Inl ''syntax error'' \<and>
   ParseFilter sample_filtering ''((('' = Inr [] \<and>
   QueryContext mock_externals
     (fst (listProjects sample_queries) @ '' AND '' @ snd (listProjects sample_queries))
     [SqlInt (sint (decryptInt64 toy_fernet [] (paginationKey sample_store) 0 projects_page)), SqlInt 2]
     projects_page = (Inl unexpected, projects_page) \<and>
   ListProjects sample_filtering toy_fernet mock_externals sample_queries sample_store ''((('' 2 []
     projects_page =
     Inr (Inl (Status Internal ''Failed to list Projects from database'' []), projects_page)"
proof -
  have n: "''((('' \<noteq> []" by simp
  show ?thesis
    using n unparsable dangling_unexpected
      List_unparsable_filter [OF n unparsable, of sample_queries mock_externals toy_fernet "[]"
        sample_store projects_page 2]
    by simp
qed


end
